theory Spec2Isabelle
  imports Complex_Main
begin

section \<open>The signal model\<close>

text \<open>
  The input signals of the template \<open>PrescriptionValidation\<close> (prescription.circom):
  seven private inputs followed by the five public inputs, in the order of their
  declaration. A signal holds an element of the scalar field of the proving system;
  the field is the type parameter \<open>'a\<close>.
\<close>

record 'a inputs =
  doctorId :: 'a
  doctorSecret :: 'a
  authorizedAction :: 'a
  sourceId :: 'a
  dataAge :: 'a
  allergyClassId :: 'a
  medicationClassId :: 'a
  doctorCredentialHash :: 'a
  trustedSourceHash :: 'a
  requiredAction :: 'a
  deltaMax :: 'a
  outcome :: 'a

section \<open>The comparator gadget (circomlib)\<close>

text \<open>
  Modelled from the spec: the templates \<open>Num2Bits\<close> and \<open>LessThan\<close> that the circuit
  includes from node_modules/circomlib (bitify.circom, comparators.circom) are not among
  the sources. The spec describes the freshness gadget as a bounded comparator of a fixed
  bit-width that gives a correct less-than for operands within that width and a wrapped
  result outside it; the definitions below are the circomlib templates with that contract.

  \<open>Num2Bits(n)\<close> runs the loop
  \<^verbatim>\<open>for (i = 0; i < n; i++) { out[i] <-- (in >> i) & 1; out[i] * (out[i] - 1) === 0;
                            lc1 += out[i] * e2; e2 = e2 + e2; }\<close>
  from \<open>lc1 = 0\<close>, \<open>e2 = 1\<close>, and ends with \<open>lc1 === in\<close>.
\<close>

fun Num2Bits_lc1 :: "'a::comm_ring_1 list \<Rightarrow> 'a \<Rightarrow> 'a \<Rightarrow> 'a" where
  "Num2Bits_lc1 [] e2 lc1 = lc1"
| "Num2Bits_lc1 (b # out) e2 lc1 = Num2Bits_lc1 out (e2 + e2) (lc1 + b * e2)"

definition Num2Bits :: "nat \<Rightarrow> 'a::comm_ring_1 \<Rightarrow> 'a list \<Rightarrow> bool" where
  "Num2Bits n input out \<longleftrightarrow>
     length out = n \<and> list_all (\<lambda>b. b * (b - 1) = 0) out \<and> Num2Bits_lc1 out 1 0 = input"

text \<open>
  The hint \<open>(in >> i) & 1\<close> works on the canonical integer of a field element, which the
  parameter \<open>val\<close> reads.
\<close>

definition Num2Bits_hint :: "('a::comm_ring_1 \<Rightarrow> nat) \<Rightarrow> nat \<Rightarrow> 'a \<Rightarrow> 'a list" where
  "Num2Bits_hint val n input = map (\<lambda>i. of_nat ((val input div 2 ^ i) mod 2)) [0..<n]"

text \<open>
  \<open>LessThan(n)\<close>: \<open>n2b = Num2Bits(n+1)\<close>, \<open>n2b.in <== in[0] + (1<<n) - in[1]\<close>,
  \<open>out <== 1 - n2b.out[n]\<close>. The arguments are \<open>in[0]\<close>, \<open>in[1]\<close>, the signals
  \<open>n2b.in\<close> and \<open>n2b.out\<close>, and \<open>out\<close>.
\<close>

definition LessThan :: "nat \<Rightarrow> 'a::comm_ring_1 \<Rightarrow> 'a \<Rightarrow> 'a \<Rightarrow> 'a list \<Rightarrow> 'a \<Rightarrow> bool" where
  "LessThan n in0 in1 n2b_in n2b_out out \<longleftrightarrow>
     n2b_in = in0 + 2 ^ n - in1 \<and> Num2Bits (n + 1) n2b_in n2b_out \<and> out = 1 - n2b_out ! n"

section \<open>The circuit (prescription.circom)\<close>

text \<open>
  A full assignment: the inputs and every signal the template declares or reaches in its
  components. The two hashers are used through their output only: \<open>Poseidon\<close> assigns
  all its signals with \<^verbatim>\<open><==\<close>, so its output is a function of its inputs, the
  parameters \<open>H2\<close> (two inputs) and \<open>H1\<close> (one input) below.
\<close>

record 'a witness =
  inp :: "'a inputs"
  credHasher_out :: 'a
  srcHasher_out :: 'a
  freshCheck_n2b_in :: 'a
  freshCheck_n2b_out :: "'a list"
  freshCheck_out :: 'a
  freshOk :: 'a
  authOk :: 'a
  classDiff :: 'a
  classDiffInv :: 'a
  isZero :: 'a
  noContraindication :: 'a
  validCtx :: 'a
  computedOutcome :: 'a

text \<open>CHECK 1 (lines 71 to 76): the credential hash.\<close>

definition check1 :: "('a \<Rightarrow> 'a \<Rightarrow> 'a) \<Rightarrow> 'a witness \<Rightarrow> bool" where
  "check1 H2 w \<longleftrightarrow>
     credHasher_out w = H2 (doctorId (inp w)) (doctorSecret (inp w)) \<and>
     credHasher_out w = doctorCredentialHash (inp w)"

text \<open>CHECK 2 (lines 83 to 87): the source hash.\<close>

definition check2 :: "('a \<Rightarrow> 'a) \<Rightarrow> 'a witness \<Rightarrow> bool" where
  "check2 H1 w \<longleftrightarrow>
     srcHasher_out w = H1 (sourceId (inp w)) \<and>
     srcHasher_out w = trustedSourceHash (inp w)"

text \<open>CHECK 3 (lines 94 to 99): \<open>freshCheck = LessThan(32)\<close> on \<open>dataAge\<close>, \<open>deltaMax\<close>.\<close>

definition check3 :: "'a::comm_ring_1 witness \<Rightarrow> bool" where
  "check3 w \<longleftrightarrow>
     LessThan 32 (dataAge (inp w)) (deltaMax (inp w))
       (freshCheck_n2b_in w) (freshCheck_n2b_out w) (freshCheck_out w) \<and>
     freshOk w = freshCheck_out w"

text \<open>CHECK 4 (lines 106 to 110): the action.\<close>

definition check4 :: "'a::comm_ring_1 witness \<Rightarrow> bool" where
  "check4 w \<longleftrightarrow>
     authOk w = authorizedAction (inp w) - requiredAction (inp w) \<and>
     authOk w = 0"

text \<open>
  The is-zero pattern of lines 125 to 132, on the values of \<open>classDiff\<close>, the hint
  \<open>classDiffInv\<close> and \<open>isZero\<close>: \<open>isZero <== 1 - (classDiff * classDiffInv)\<close> and
  the enforcement \<open>classDiff * isZero === 0\<close>.
\<close>

definition is_zero_pattern :: "'a::comm_ring_1 \<Rightarrow> 'a \<Rightarrow> 'a \<Rightarrow> bool" where
  "is_zero_pattern d dInv z \<longleftrightarrow> z = 1 - d * dInv \<and> d * z = 0"

text \<open>CHECK 5 (lines 121 to 136): the is-zero pattern on the class difference.\<close>

definition check5 :: "'a::comm_ring_1 witness \<Rightarrow> bool" where
  "check5 w \<longleftrightarrow>
     classDiff w = allergyClassId (inp w) - medicationClassId (inp w) \<and>
     is_zero_pattern (classDiff w) (classDiffInv w) (isZero w) \<and>
     noContraindication w = 1 - isZero w"

text \<open>FINAL COMPOSITION (lines 149 to 157).\<close>

definition composition :: "'a::comm_ring_1 witness \<Rightarrow> bool" where
  "composition w \<longleftrightarrow>
     validCtx w = freshOk w \<and>
     computedOutcome w = validCtx w * noContraindication w \<and>
     computedOutcome w = outcome (inp w)"

text \<open>The constraint system of the template: an assignment satisfies it.\<close>

definition PrescriptionValidation ::
  "('a::comm_ring_1 \<Rightarrow> 'a \<Rightarrow> 'a) \<Rightarrow> ('a \<Rightarrow> 'a) \<Rightarrow> 'a witness \<Rightarrow> bool" where
  "PrescriptionValidation H2 H1 w \<longleftrightarrow>
     check1 H2 w \<and> check2 H1 w \<and> check3 w \<and> check4 w \<and> check5 w \<and> composition w"

text \<open>
  The witness generator compiled from the template: it assigns the signals in the order of
  the template, with the hints of the \<^verbatim>\<open><--\<close> assignments, and stops at the first
  \<^verbatim>\<open>===\<close> that fails. A failure in the template carries its line in prescription.circom.
\<close>

datatype assert_failed = Line nat | InNum2Bits

definition buildWitness ::
  "('a::field \<Rightarrow> nat) \<Rightarrow> ('a \<Rightarrow> 'a \<Rightarrow> 'a) \<Rightarrow> ('a \<Rightarrow> 'a) \<Rightarrow> 'a inputs \<Rightarrow> assert_failed + 'a witness" where
  "buildWitness val H2 H1 input =
     (let credOut = H2 (doctorId input) (doctorSecret input) in
      if credOut \<noteq> doctorCredentialHash input then Inl (Line 76) else
      let srcOut = H1 (sourceId input) in
      if srcOut \<noteq> trustedSourceHash input then Inl (Line 87) else
      let n2bIn = dataAge input + 2 ^ 32 - deltaMax input;
          n2bOut = Num2Bits_hint val 33 n2bIn in
      if \<not> (list_all (\<lambda>b. b * (b - 1) = 0) n2bOut \<and> Num2Bits_lc1 n2bOut 1 0 = n2bIn)
      then Inl InNum2Bits else
      let lt = 1 - n2bOut ! 32;
          auth = authorizedAction input - requiredAction input in
      if auth \<noteq> 0 then Inl (Line 110) else
      let diff = allergyClassId input - medicationClassId input;
          diffInv = (if diff = 0 then 0 else 1 / diff);
          isZ = 1 - diff * diffInv in
      if diff * isZ \<noteq> 0 then Inl (Line 132) else
      let noContra = 1 - isZ;
          computed = lt * noContra in
      if computed \<noteq> outcome input then Inl (Line 157) else
      Inr \<lparr>inp = input, credHasher_out = credOut, srcHasher_out = srcOut,
           freshCheck_n2b_in = n2bIn, freshCheck_n2b_out = n2bOut, freshCheck_out = lt,
           freshOk = lt, authOk = auth, classDiff = diff, classDiffInv = diffInv,
           isZero = isZ, noContraindication = noContra, validCtx = lt,
           computedOutcome = computed\<rparr>)"

text \<open>
  The public signals of a proof: the public inputs in the order of their declaration
  (\<open>component main {public [...]}\<close>).
\<close>

definition publicSignals :: "'a witness \<Rightarrow> 'a list" where
  "publicSignals w =
     [doctorCredentialHash (inp w), trustedSourceHash (inp w), requiredAction (inp w),
      deltaMax (inp w), outcome (inp w)]"

text \<open>
  \<open>snarkjs.groth16.fullProve\<close> on the compiled circuit: the witness generator, then the
  prover (the parameter \<open>prove\<close>, with the proving key fixed). A failed assertion is
  thrown as an exception with its message.
\<close>

fun message :: "assert_failed \<Rightarrow> string" where
  "message (Line n) = ''Assert Failed. Error in template PrescriptionValidation''"
| "message InNum2Bits = ''Assert Failed. Error in template Num2Bits''"

definition groth16_fullProve ::
  "('a::field \<Rightarrow> nat) \<Rightarrow> ('a \<Rightarrow> 'a \<Rightarrow> 'a) \<Rightarrow> ('a \<Rightarrow> 'a) \<Rightarrow> ('a witness \<Rightarrow> 'prf) \<Rightarrow>
     'a inputs \<Rightarrow> string + 'prf \<times> 'a list" where
  "groth16_fullProve val H2 H1 prove input =
     (case buildWitness val H2 H1 input of
        Inl err \<Rightarrow> Inl (message err)
      | Inr w \<Rightarrow> Inr (prove w, publicSignals w))"

section \<open>The scenario runner (prove.js)\<close>

text \<open>
  \<open>tryProve\<close> wraps \<open>snarkjs.groth16.fullProve\<close> in a try/catch. The external call is
  the parameter \<open>fullProve\<close>: it returns the proof and the public signals, or throws
  (\<open>Inl\<close>) with a message. Whatever is thrown is caught and only its message is kept.
\<close>

datatype ('a, 'prf) prove_result = Ok 'prf "'a list" | Err string

fun ok :: "('a, 'prf) prove_result \<Rightarrow> bool" where
  "ok (Ok p pub) = True"
| "ok (Err e) = False"

fun error :: "('a, 'prf) prove_result \<Rightarrow> string option" where
  "error (Ok p pub) = None"
| "error (Err e) = Some e"

definition tryProve ::
  "('a inputs \<Rightarrow> string + 'prf \<times> 'a list) \<Rightarrow> 'a inputs \<Rightarrow> ('a, 'prf) prove_result" where
  "tryProve fullProve input =
     (case fullProve input of
        Inr (p, pub) \<Rightarrow> Ok p pub
      | Inl e \<Rightarrow> Err e)"

text \<open>
  The verification key as the runner uses it: the array \<open>IC\<close> of points, each a list of
  decimal strings, and the rest of the key, which the runner never looks at.
\<close>

record 'k vkey =
  IC :: "string list list"
  rest :: 'k

text \<open>
  One line of the report written to test_results.json. The scenario names are written
  with \<open>--\<close> for the dash of the source.
\<close>

record entry =
  sid :: string
  name :: string
  expectProof :: bool
  expectVerify :: bool
  result :: bool

text \<open>What the runner prints: a result block per scenario (\<open>printResult\<close>) or a SKIP line.\<close>

datatype console_line =
  PrintResult string string bool bool bool "string option"
| PrintSkip string

text \<open>
  \<open>printResult(id, name, ok, proofOk, verifyOk, error)\<close>: the error line is printed only
  for a non-empty message, cut to 120 characters.
\<close>

definition printResult ::
  "string \<Rightarrow> string \<Rightarrow> bool \<Rightarrow> bool \<Rightarrow> bool \<Rightarrow> string option \<Rightarrow> console_line" where
  "printResult i n okS proofOk verifyOk err =
     PrintResult i n okS proofOk verifyOk
       (case err of None \<Rightarrow> None | Some m \<Rightarrow> if m = [] then None else Some (take 120 m))"

text \<open>
  The external capabilities and the loaded key: the two commitment functions
  (\<open>poseidon([a, b])\<close> and \<open>poseidon([a])\<close> of circomlibjs), \<open>snarkjs.groth16.fullProve\<close>,
  \<open>snarkjs.groth16.verify\<close> and the parsed verification_key.json.
\<close>

record ('a, 'prf, 'k) env =
  poseidon2 :: "'a \<Rightarrow> 'a \<Rightarrow> 'a"
  poseidon1 :: "'a \<Rightarrow> 'a"
  fullProve :: "'a inputs \<Rightarrow> string + 'prf \<times> 'a list"
  verify :: "'k vkey \<Rightarrow> 'a list \<Rightarrow> 'prf \<Rightarrow> bool"
  vKey :: "'k vkey"

text \<open>The mutable locals of \<open>main\<close>: \<open>passed\<close>, \<open>report\<close>, \<open>proofCache\<close>, and the console.\<close>

record ('a, 'prf) state =
  passed :: nat
  report :: "entry list"
  proofCache :: "string \<rightharpoonup> ('a, 'prf) prove_result"
  console :: "console_line list"

definition credHash :: "('a::comm_ring_1, 'prf, 'k) env \<Rightarrow> 'a" where
  "credHash e = poseidon2 e 123 456"

definition srcHash :: "('a::comm_ring_1, 'prf, 'k) env \<Rightarrow> 'a" where
  "srcHash e = poseidon1 e 1"

text \<open>The input objects of the six proving scenarios, as the literals of \<open>main\<close>.\<close>

definition S1_input :: "('a::comm_ring_1, 'prf, 'k) env \<Rightarrow> 'a inputs" where
  "S1_input e =
     \<lparr>doctorId = 123, doctorSecret = 456, authorizedAction = 1, sourceId = 1,
      dataAge = 30, allergyClassId = 2, medicationClassId = 5,
      doctorCredentialHash = credHash e, trustedSourceHash = srcHash e,
      requiredAction = 1, deltaMax = 90, outcome = 1\<rparr>"

definition S2_input :: "('a::comm_ring_1, 'prf, 'k) env \<Rightarrow> 'a inputs" where
  "S2_input e =
     \<lparr>doctorId = 123, doctorSecret = 999, authorizedAction = 1, sourceId = 1,
      dataAge = 30, allergyClassId = 2, medicationClassId = 5,
      doctorCredentialHash = credHash e, trustedSourceHash = srcHash e,
      requiredAction = 1, deltaMax = 90, outcome = 1\<rparr>"

definition S3_input :: "('a::comm_ring_1, 'prf, 'k) env \<Rightarrow> 'a inputs" where
  "S3_input e =
     \<lparr>doctorId = 123, doctorSecret = 456, authorizedAction = 1, sourceId = 99,
      dataAge = 30, allergyClassId = 2, medicationClassId = 5,
      doctorCredentialHash = credHash e, trustedSourceHash = srcHash e,
      requiredAction = 1, deltaMax = 90, outcome = 1\<rparr>"

definition S4_input :: "('a::comm_ring_1, 'prf, 'k) env \<Rightarrow> 'a inputs" where
  "S4_input e =
     \<lparr>doctorId = 123, doctorSecret = 456, authorizedAction = 1, sourceId = 1,
      dataAge = 100, allergyClassId = 2, medicationClassId = 5,
      doctorCredentialHash = credHash e, trustedSourceHash = srcHash e,
      requiredAction = 1, deltaMax = 90, outcome = 1\<rparr>"

definition S5a_input :: "('a::comm_ring_1, 'prf, 'k) env \<Rightarrow> 'a inputs" where
  "S5a_input e =
     \<lparr>doctorId = 123, doctorSecret = 456, authorizedAction = 1, sourceId = 1,
      dataAge = 30, allergyClassId = 2, medicationClassId = 2,
      doctorCredentialHash = credHash e, trustedSourceHash = srcHash e,
      requiredAction = 1, deltaMax = 90, outcome = 0\<rparr>"

definition S5b_input :: "('a::comm_ring_1, 'prf, 'k) env \<Rightarrow> 'a inputs" where
  "S5b_input e =
     \<lparr>doctorId = 123, doctorSecret = 456, authorizedAction = 1, sourceId = 1,
      dataAge = 30, allergyClassId = 2, medicationClassId = 2,
      doctorCredentialHash = credHash e, trustedSourceHash = srcHash e,
      requiredAction = 1, deltaMax = 90, outcome = 1\<rparr>"

text \<open>
  \<open>r.ok && await snarkjs.groth16.verify(vKey, r.publicSignals, r.proof)\<close>: the verifier
  is only called when a proof was produced.
\<close>

fun verifyOf :: "('a, 'prf, 'k) env \<Rightarrow> ('a, 'prf) prove_result \<Rightarrow> bool" where
  "verifyOf e (Ok p pub) = verify e (vKey e) pub p"
| "verifyOf e (Err m) = False"

text \<open>S1: expects a proof that verifies; a passing result is cached for S6 and S7.\<close>

definition S1 :: "('a::comm_ring_1, 'prf, 'k) env \<Rightarrow> ('a, 'prf) state \<Rightarrow> ('a, 'prf) state" where
  "S1 e st =
     (let r = tryProve (fullProve e) (S1_input e);
          verifyOk = verifyOf e r;
          okS = (ok r = True \<and> verifyOk = True)
      in st\<lparr>passed := (if okS then passed st + 1 else passed st),
            proofCache := (if okS then (proofCache st)(''S1'' \<mapsto> r) else proofCache st),
            console := console st @
              [printResult ''S1'' ''Valid baseline -- accept prescription''
                 okS (ok r) verifyOk (error r)],
            report := report st @
              [\<lparr>sid = ''S1'', name = ''Valid baseline -- accept prescription'',
                expectProof = True, expectVerify = True, result = okS\<rparr>]\<rparr>)"

text \<open>S2, S3, S4 and S5b: expect \<open>tryProve\<close> to fail; \<open>verifyOk\<close> is the constant false.\<close>

definition S2 :: "('a::comm_ring_1, 'prf, 'k) env \<Rightarrow> ('a, 'prf) state \<Rightarrow> ('a, 'prf) state" where
  "S2 e st =
     (let r = tryProve (fullProve e) (S2_input e);
          verifyOk = False;
          okS = (ok r = False)
      in st\<lparr>passed := (if okS then passed st + 1 else passed st),
            console := console st @
              [printResult ''S2'' ''Invalid credential -- forged doctorSecret''
                 okS (ok r) verifyOk (error r)],
            report := report st @
              [\<lparr>sid = ''S2'', name = ''Invalid credential -- forged doctorSecret'',
                expectProof = False, expectVerify = False, result = okS\<rparr>]\<rparr>)"

definition S3 :: "('a::comm_ring_1, 'prf, 'k) env \<Rightarrow> ('a, 'prf) state \<Rightarrow> ('a, 'prf) state" where
  "S3 e st =
     (let r = tryProve (fullProve e) (S3_input e);
          verifyOk = False;
          okS = (ok r = False)
      in st\<lparr>passed := (if okS then passed st + 1 else passed st),
            console := console st @
              [printResult ''S3'' ''Untrusted source -- sourceId not in governance registry''
                 okS (ok r) verifyOk (error r)],
            report := report st @
              [\<lparr>sid = ''S3'', name = ''Untrusted source -- sourceId not in governance registry'',
                expectProof = False, expectVerify = False, result = okS\<rparr>]\<rparr>)"

definition S4 :: "('a::comm_ring_1, 'prf, 'k) env \<Rightarrow> ('a, 'prf) state \<Rightarrow> ('a, 'prf) state" where
  "S4 e st =
     (let r = tryProve (fullProve e) (S4_input e);
          verifyOk = False;
          okS = (ok r = False)
      in st\<lparr>passed := (if okS then passed st + 1 else passed st),
            console := console st @
              [printResult ''S4'' ''Freshness violation -- dataAge exceeds deltaMax''
                 okS (ok r) verifyOk (error r)],
            report := report st @
              [\<lparr>sid = ''S4'', name = ''Freshness violation -- dataAge exceeds deltaMax'',
                expectProof = False, expectVerify = False, result = okS\<rparr>]\<rparr>)"

text \<open>S5a: expects a proof of the reject outcome that verifies; nothing is cached.\<close>

definition S5a :: "('a::comm_ring_1, 'prf, 'k) env \<Rightarrow> ('a, 'prf) state \<Rightarrow> ('a, 'prf) state" where
  "S5a e st =
     (let r = tryProve (fullProve e) (S5a_input e);
          verifyOk = verifyOf e r;
          okS = (ok r = True \<and> verifyOk = True)
      in st\<lparr>passed := (if okS then passed st + 1 else passed st),
            console := console st @
              [printResult ''S5a'' ''Contraindication -- reject outcome proved correctly''
                 okS (ok r) verifyOk (error r)],
            report := report st @
              [\<lparr>sid = ''S5a'', name = ''Contraindication -- reject outcome proved correctly'',
                expectProof = True, expectVerify = True, result = okS\<rparr>]\<rparr>)"

definition S5b :: "('a::comm_ring_1, 'prf, 'k) env \<Rightarrow> ('a, 'prf) state \<Rightarrow> ('a, 'prf) state" where
  "S5b e st =
     (let r = tryProve (fullProve e) (S5b_input e);
          verifyOk = False;
          okS = (ok r = False)
      in st\<lparr>passed := (if okS then passed st + 1 else passed st),
            console := console st @
              [printResult ''S5b'' ''Outcome integrity -- approve attempt despite contraindication''
                 okS (ok r) verifyOk (error r)],
            report := report st @
              [\<lparr>sid = ''S5b'',
                name = ''Outcome integrity -- approve attempt despite contraindication'',
                expectProof = False, expectVerify = False, result = okS\<rparr>]\<rparr>)"

text \<open>
  S6 copies the public signals of the cached S1 result and flips the last element
  (\<open>tampered[tampered.length - 1]\<close>); on an empty array the JavaScript assignment sets
  the property \<open>-1\<close> and leaves the elements as they are, as the list update at
  \<open>length - 1\<close> does here. Without a cached S1 result it prints SKIP and returns.
\<close>

definition tamper :: "'a::comm_ring_1 list \<Rightarrow> 'a list" where
  "tamper pub =
     pub[length pub - 1 := (if pub ! (length pub - 1) = 1 then 0 else 1)]"

definition S6 :: "('a::comm_ring_1, 'prf, 'k) env \<Rightarrow> ('a, 'prf) state \<Rightarrow> ('a, 'prf) state" where
  "S6 e st =
     (case proofCache st ''S1'' of
        Some (Ok p pub) \<Rightarrow>
          (let tampered = tamper pub;
               verifyOk = verify e (vKey e) tampered p;
               okS = (verifyOk = False)
           in st\<lparr>passed := (if okS then passed st + 1 else passed st),
                 console := console st @
                   [printResult ''S6'' ''Replay / substitution -- tampered public signals''
                      okS True verifyOk None],
                 report := report st @
                   [\<lparr>sid = ''S6'', name = ''Replay / substitution -- tampered public signals'',
                     expectProof = True, expectVerify = False, result = okS\<rparr>]\<rparr>)
      | _ \<Rightarrow> st\<lparr>console := console st @ [PrintSkip ''S6'']\<rparr>)"

text \<open>
  S7 deep-copies the key and overwrites the last six characters of \<open>IC[0][0]\<close> with
  zeros (\<open>orig.slice(0, -6) + "000000"\<close>). Reading \<open>IC[0][0]\<close> of a key without that
  entry throws a TypeError, which \<open>main().catch\<close> turns into exit status 1.
\<close>

definition corruptVkey :: "'k vkey \<Rightarrow> string + 'k vkey" where
  "corruptVkey vk =
     (case IC vk of
        (orig # coords) # points \<Rightarrow>
          Inr (vk\<lparr>IC := ((take (length orig - 6) orig @ ''000000'') # coords) # points\<rparr>)
      | _ \<Rightarrow> Inl ''TypeError'')"

definition S7 ::
  "('a::comm_ring_1, 'prf, 'k) env \<Rightarrow> ('a, 'prf) state \<Rightarrow> string + ('a, 'prf) state" where
  "S7 e st =
     (case proofCache st ''S1'' of
        Some (Ok p pub) \<Rightarrow>
          (case corruptVkey (vKey e) of
             Inl err \<Rightarrow> Inl err
           | Inr badVkey \<Rightarrow>
               (let verifyOk = verify e badVkey pub p;
                    okS = (verifyOk = False)
                in Inr (st\<lparr>passed := (if okS then passed st + 1 else passed st),
                      console := console st @
                        [printResult ''S7'' ''Policy update -- proof verified against wrong verification key''
                           okS True verifyOk None],
                      report := report st @
                        [\<lparr>sid = ''S7'',
                          name = ''Policy update -- proof verified against wrong verification key'',
                          expectProof = True, expectVerify = False, result = okS\<rparr>]\<rparr>)))
      | _ \<Rightarrow> Inr (st\<lparr>console := console st @ [PrintSkip ''S7'']\<rparr>))"

text \<open>
  \<open>main\<close> of prove.js, from the first scenario on: the eight blocks in order, then the
  summary (\<open>passed\<close> of \<open>report.length\<close>) and the report written to
  test_results.json. \<open>Inl\<close> is the rejected promise (exit status 1, nothing written).
  The verifier is taken as a total function to the booleans, as its interface states.
\<close>

record summary =
  saved :: "entry list"
  passedCount :: nat
  total :: nat
  printed :: "console_line list"

definition initial :: "('a, 'prf) state" where
  "initial = \<lparr>passed = 0, report = [], proofCache = Map.empty, console = []\<rparr>"

definition prove_main :: "('a::comm_ring_1, 'prf, 'k) env \<Rightarrow> string + summary" where
  "prove_main e =
     (case S7 e (S6 e (S5b e (S5a e (S4 e (S3 e (S2 e (S1 e initial))))))) of
        Inl err \<Rightarrow> Inl err
      | Inr st \<Rightarrow>
          Inr \<lparr>saved = report st, passedCount = passed st, total = length (report st),
               printed = console st\<rparr>)"

text \<open>The arguments \<open>printResult\<close> was called with, for a result block of the console.\<close>

fun shown :: "console_line \<Rightarrow> (string \<times> bool \<times> bool \<times> bool) option" where
  "shown (PrintResult i n okS proofOk verifyOk err) = Some (i, okS, proofOk, verifyOk)"
| "shown (PrintSkip i) = None"

section \<open>The setup run (ceremony.js)\<close>

text \<open>
  The external calls of \<open>main\<close> in ceremony.js, in the order of the run: the circom
  compiler (\<open>execSync\<close>), then the snarkjs calls of steps 1 to 7.
\<close>

datatype step =
  Compile | R1csInfo
| PtauNew | PtauContribute1 | PtauContribute2 | PtauVerify | PtauPreparePhase2
| ZkeyNew | ZkeyContribute1 | ZkeyContribute2 | ZkeyVerify | ExportVerificationKey
| BuildPoseidon | FullProve | Verify | ExportSolidityVerifier

text \<open>
  \<open>execSync\<close> returns the compiler's output (logged trimmed), or throws with \<open>stdout\<close>
  and \<open>stderr\<close>.
\<close>

datatype exec_result = Completed string | ExecFailed string string

text \<open>
  The environment of a run: what the compiler call does, whether build/prescription.r1cs
  exists when the catch block looks for it, and which of the later calls throw.
\<close>

record ceremony_env =
  execSync :: exec_result
  r1csExists :: bool
  throws :: "step \<Rightarrow> bool"

text \<open>
  The result of a run: the status passed to \<open>process.exit\<close>, if the run calls it (the
  source calls it in the two failure paths only; when every step succeeds \<open>main\<close>
  returns without it), whether \<open>save()\<close> wrote ceremony_log.txt, the lines logged by
  step 1, and the external calls attempted, in order.
\<close>

record run =
  exitStatus :: "nat option"
  logSaved :: bool
  logged :: "string list"
  attempted :: "step list"

definition downstream :: "step list" where
  "downstream =
     [R1csInfo, PtauNew, PtauContribute1, PtauContribute2, PtauVerify, PtauPreparePhase2,
      ZkeyNew, ZkeyContribute1, ZkeyContribute2, ZkeyVerify, ExportVerificationKey,
      BuildPoseidon, FullProve, Verify, ExportSolidityVerifier]"

text \<open>
  The calls after step 1 are awaited one after the other. A call that throws rejects
  \<open>main\<close>: the handler prints the error and exits with status 1, and \<open>save()\<close>, the last
  statement of \<open>main\<close>, is not reached.
\<close>

fun runSteps :: "(step \<Rightarrow> bool) \<Rightarrow> step list \<Rightarrow> run \<Rightarrow> run" where
  "runSteps thr [] r = r\<lparr>logSaved := True\<rparr>"
| "runSteps thr (s # ss) r =
     (if thr s
      then r\<lparr>exitStatus := Some 1, logSaved := False, attempted := attempted r @ [s]\<rparr>
      else runSteps thr ss (r\<lparr>attempted := attempted r @ [s]\<rparr>))"

text \<open>
  Step 1: the compiler call in a try/catch. The catch block logs the output and aborts
  (\<open>save(); process.exit(1)\<close>) only if build/prescription.r1cs does not exist.
\<close>

definition ceremony_main :: "ceremony_env \<Rightarrow> run" where
  "ceremony_main e =
     (case execSync e of
        Completed out \<Rightarrow>
          runSteps (throws e) downstream
            \<lparr>exitStatus = None, logSaved = False, logged = [out], attempted = [Compile]\<rparr>
      | ExecFailed out err \<Rightarrow>
          (if \<not> r1csExists e
           then \<lparr>exitStatus = Some 1, logSaved = True,
                 logged = [out, ''STDERR: '' @ err, ''ERROR: Compilation failed. Aborting.''],
                 attempted = [Compile]\<rparr>
           else runSteps (throws e) downstream
                  \<lparr>exitStatus = None, logSaved = False, logged = [out, ''STDERR: '' @ err],
                   attempted = [Compile]\<rparr>))"

text \<open>The local \<open>ok\<close> of block S1: the baseline proof was produced and verified.\<close>

definition S1_ok :: "('a::comm_ring_1, 'prf, 'k) env \<Rightarrow> bool" where
  "S1_ok e \<longleftrightarrow> ok (tryProve (fullProve e) (S1_input e)) \<and> verifyOf e (tryProve (fullProve e) (S1_input e))"

section \<open>Concrete environments\<close>

text \<open>
  A run in which every call of \<open>fullProve\<close> throws because the witness generator file
  is missing.
\<close>

definition missing_wasm_env :: "(int, unit, unit) env" where
  "missing_wasm_env =
     \<lparr>poseidon2 = (\<lambda>a b. a + b), poseidon1 = (\<lambda>a. a),
      fullProve = (\<lambda>input. Inl ''ENOENT: no such file or directory''),
      verify = (\<lambda>vk pub p. False),
      vKey = \<lparr>IC = [[''1234567'', ''2'', ''1'']], rest = ()\<rparr>\<rparr>"

text \<open>
  A run against a pipeline that returns a proof for every input; the proof is the public
  input vector it is bound to, and the verifier compares the two under the original key.
\<close>

definition always_proving_env :: "(int, int list, unit) env" where
  "always_proving_env =
     \<lparr>poseidon2 = (\<lambda>a b. a + b), poseidon1 = (\<lambda>a. a),
      fullProve = (\<lambda>input. Inr
        ([doctorCredentialHash input, trustedSourceHash input, requiredAction input,
          deltaMax input, outcome input],
         [doctorCredentialHash input, trustedSourceHash input, requiredAction input,
          deltaMax input, outcome input])),
      verify = (\<lambda>vk pub p. IC vk = [[''1234567'', ''2'', ''1'']] \<and> pub = p),
      vKey = \<lparr>IC = [[''1234567'', ''2'', ''1'']], rest = ()\<rparr>\<rparr>"

text \<open>Setup runs in which the compiler call fails, with and without a stale r1cs file.\<close>

definition stale_r1cs_env :: ceremony_env where
  "stale_r1cs_env =
     \<lparr>execSync = ExecFailed [] ''error[P1001]: parse error'', r1csExists = True,
      throws = (\<lambda>s. False)\<rparr>"

definition no_r1cs_env :: ceremony_env where
  "no_r1cs_env =
     \<lparr>execSync = ExecFailed [] ''error[P1001]: parse error'', r1csExists = False,
      throws = (\<lambda>s. False)\<rparr>"

section \<open>Auxiliary notions for the statements\<close>

text \<open>The number a list of bits stands for, least significant bit first.\<close>

fun bitsNat :: "'a::zero list \<Rightarrow> nat" where
  "bitsNat [] = 0"
| "bitsNat (b # bs) = (if b = 0 then 0 else 1) + 2 * bitsNat bs"

text \<open>
  The runner's environment when \<open>fullProve\<close> is the pipeline of the compiled circuit and
  the hashes are the circuit's.
\<close>

definition pipeline_env ::
  "('a::field \<Rightarrow> nat) \<Rightarrow> ('a \<Rightarrow> 'a \<Rightarrow> 'a) \<Rightarrow> ('a \<Rightarrow> 'a) \<Rightarrow> ('a witness \<Rightarrow> 'prf) \<Rightarrow>
     ('k vkey \<Rightarrow> 'a list \<Rightarrow> 'prf \<Rightarrow> bool) \<Rightarrow> 'k vkey \<Rightarrow> ('a, 'prf, 'k) env" where
  "pipeline_env val H2 H1 prove vrf vk =
     \<lparr>poseidon2 = H2, poseidon1 = H1, fullProve = groth16_fullProve val H2 H1 prove,
      verify = vrf, vKey = vk\<rparr>"

text \<open>
  Modelled from the spec: the public input vector of the signal model, in its fixed order
  \<open>[credentialHash, sourceHash, requiredAction, deltaMax, outcome]\<close>.
\<close>

definition publicInputVector :: "'a inputs \<Rightarrow> 'a list" where
  "publicInputVector i =
     [doctorCredentialHash i, trustedSourceHash i, requiredAction i, deltaMax i, outcome i]"

text \<open>
  Modelled from the spec: the proving and the verification oracle (snarkjs.groth16) are
  consumed capabilities outside the sources. By the spec a proof is an opaque certificate
  produced for one witness assignment and bound to a verification key and a public input
  vector, valid for exactly that pair. The certificate records the pair it is bound to;
  the proving oracle binds it to the key of its setup and the public input vector of the
  assignment, and the verification oracle accepts exactly that pair.
\<close>

record ('a, 'k) certificate =
  boundKey :: "'k vkey"
  boundVector :: "'a list"

definition oracle_prove :: "'k vkey \<Rightarrow> 'a witness \<Rightarrow> ('a, 'k) certificate" where
  "oracle_prove vk w = \<lparr>boundKey = vk, boundVector = publicInputVector (inp w)\<rparr>"

definition oracle_verify :: "'k vkey \<Rightarrow> 'a list \<Rightarrow> ('a, 'k) certificate \<Rightarrow> bool" where
  "oracle_verify vk pub p \<longleftrightarrow> boundKey p = vk \<and> boundVector p = pub"

text \<open>
  The pair (proof generated, verified) that a proving block of the runner observes for
  an input: \<open>r.ok\<close> and \<open>r.ok && verify(vKey, r.publicSignals, r.proof)\<close>.
\<close>

definition observed :: "('a, 'prf, 'k) env \<Rightarrow> 'a inputs \<Rightarrow> bool \<times> bool" where
  "observed e i = (ok (tryProve (fullProve e) i), verifyOf e (tryProve (fullProve e) i))"

text \<open>
  The reading of a field element as a natural number is canonical on 33 bits: it returns
  every natural number below \<open>2^33\<close> from its image in the field. The scalar field of
  the curve, read by its representatives below the modulus, has this property.
\<close>

definition canonical :: "('a::semiring_1 \<Rightarrow> nat) \<Rightarrow> bool" where
  "canonical val \<longleftrightarrow> (\<forall>n<2 ^ 33. val (of_nat n) = n)"

text \<open>The rational numbers, read by their integer part, serve as a concrete field.\<close>

definition rat_val :: "rat \<Rightarrow> nat" where
  "rat_val x = nat \<lfloor>x\<rfloor>"

definition toy_env :: "(rat, (rat, unit) certificate, unit) env" where
  "toy_env =
     pipeline_env rat_val (\<lambda>a b. 1000 * a + b) (\<lambda>a. a + 7)
       (oracle_prove \<lparr>IC = [[''1234567'', ''2'', ''1'']], rest = ()\<rparr>) oracle_verify
       \<lparr>IC = [[''1234567'', ''2'', ''1'']], rest = ()\<rparr>"

section \<open>The residue ring of the curve order\<close>

text \<open>
  Modelled from the spec: the finite field of the signals is fixed by the curve and not
  written in the sources. The setup selects the curve bn128
  (\<open>getCurveFromName("bn128")\<close> in ceremony.js, the default prime of the circom
  compiler), whose scalar field is the integers modulo this number.
\<close>

definition bn128_r :: int where
  "bn128_r = 21888242871839275222246405745257275088548364400416034343698204186575808495617"

lemma r_pos: "0 < bn128_r" and r_gt1: "1 < bn128_r"
  by (simp_all add: bn128_r_def)

text \<open>
  The residues modulo \<open>bn128_r\<close> with their ring operations. That the modulus is prime
  is not needed for evaluating constraints and is not used.
\<close>

typedef fr = "{0..<bn128_r}"
  using r_pos by auto

setup_lifting type_definition_fr

instantiation fr :: comm_ring_1
begin

lift_definition zero_fr :: fr is 0
  using r_pos by simp

lift_definition one_fr :: fr is 1
  using r_gt1 by simp

lift_definition plus_fr :: "fr \<Rightarrow> fr \<Rightarrow> fr" is "\<lambda>a b. (a + b) mod bn128_r"
  using r_pos by simp

lift_definition minus_fr :: "fr \<Rightarrow> fr \<Rightarrow> fr" is "\<lambda>a b. (a - b) mod bn128_r"
  using r_pos by simp

lift_definition uminus_fr :: "fr \<Rightarrow> fr" is "\<lambda>a. (- a) mod bn128_r"
  using r_pos by simp

lift_definition times_fr :: "fr \<Rightarrow> fr \<Rightarrow> fr" is "\<lambda>a b. (a * b) mod bn128_r"
  using r_pos by simp

instance
proof
  fix a b c :: fr
  show "a * b * c = a * (b * c)"
    by transfer (simp add: mod_simps mult.assoc)
  show "a * b = b * a"
    by transfer (simp add: mult.commute)
  show "1 * a = a"
    by transfer simp
  show "a + b + c = a + (b + c)"
    by transfer (simp add: mod_simps add.assoc)
  show "a + b = b + a"
    by transfer (simp add: add.commute)
  show "0 + a = a"
    by transfer simp
  show "- a + a = 0"
    by transfer (simp add: mod_simps)
  show "a - b = a + - b"
    by transfer (simp add: mod_simps)
  show "(a + b) * c = a * c + b * c"
    by transfer (simp add: mod_simps algebra_simps)
  show "(0::fr) \<noteq> 1"
    by transfer simp
qed

end

text \<open>The canonical integer of a residue, as the hint \<open>(in >> i) & 1\<close> reads it.\<close>

definition fr_val :: "fr \<Rightarrow> nat" where
  "fr_val x = nat (Rep_fr x)"

text \<open>Variants of the scenario inputs used in the statements below.\<close>

definition stale_overflow_input :: "('a::comm_ring_1, 'prf, 'k) env \<Rightarrow> 'a inputs" where
  "stale_overflow_input e = (S5a_input e)\<lparr>dataAge := 2 ^ 33\<rparr>"

definition oversize_input :: "('a::comm_ring_1, 'prf, 'k) env \<Rightarrow> 'a inputs" where
  "oversize_input e = (S1_input e)\<lparr>dataAge := 2 ^ 32 + 50, outcome := 0\<rparr>"

definition wrapped_input :: "('a::comm_ring_1, 'prf, 'k) env \<Rightarrow> 'a inputs" where
  "wrapped_input e = (S1_input e)\<lparr>dataAge := - 1\<rparr>"

definition stale_reject_input :: "('a::comm_ring_1, 'prf, 'k) env \<Rightarrow> 'a inputs" where
  "stale_reject_input e = (S4_input e)\<lparr>outcome := 0\<rparr>"

definition boundary_input :: "('a::comm_ring_1, 'prf, 'k) env \<Rightarrow> nat \<Rightarrow> 'a inputs" where
  "boundary_input e a = (S1_input e)\<lparr>dataAge := of_nat a\<rparr>"

text \<open>
  The full assignment of the baseline scenario S1 over the residue ring; the hint
  \<open>classDiffInv\<close> is the inverse of \<open>-3\<close>.
\<close>

definition baseline_witness :: "(fr, 'prf, 'k) env \<Rightarrow> fr witness" where
  "baseline_witness e =
     \<lparr>inp = S1_input e,
      credHasher_out = poseidon2 e 123 456, srcHasher_out = poseidon1 e 1,
      freshCheck_n2b_in = 4294967236,
      freshCheck_n2b_out = map (\<lambda>i. of_nat ((4294967236 div 2 ^ i) mod 2)) [0..<33],
      freshCheck_out = 1, freshOk = 1, authOk = 0,
      classDiff = - 3,
      classDiffInv = - 14592161914559516814830937163504850059032242933610689562465469457717205663745,
      isZero = 0, noContraindication = 1, validCtx = 1, computedOutcome = 1\<rparr>"

text \<open>
  A full assignment over the residue ring for the baseline inputs with \<open>dataAge = -1\<close>,
  the residue \<open>bn128_r - 1\<close>; the hint \<open>classDiffInv\<close> is the inverse of \<open>-3\<close>.
\<close>

definition wrapped_witness :: "(fr, 'prf, 'k) env \<Rightarrow> fr witness" where
  "wrapped_witness e =
     \<lparr>inp = wrapped_input e,
      credHasher_out = poseidon2 e 123 456, srcHasher_out = poseidon1 e 1,
      freshCheck_n2b_in = 4294967205,
      freshCheck_n2b_out = map (\<lambda>i. of_nat ((4294967205 div 2 ^ i) mod 2)) [0..<33],
      freshCheck_out = 1, freshOk = 1, authOk = 0,
      classDiff = - 3,
      classDiffInv = - 14592161914559516814830937163504850059032242933610689562465469457717205663745,
      isZero = 0, noContraindication = 1, validCtx = 1, computedOutcome = 1\<rparr>"

text \<open>
  A full assignment over the rationals for scenario S4 with the declared outcome 0: the
  data is stale (\<open>freshOk = 0\<close>), the classes differ (\<open>noContraindication = 1\<close>); the hint
  \<open>classDiffInv\<close> is the inverse of \<open>-3\<close>.
\<close>

definition stale_reject_witness :: "(rat, 'prf, 'k) env \<Rightarrow> rat witness" where
  "stale_reject_witness e =
     \<lparr>inp = stale_reject_input e,
      credHasher_out = poseidon2 e 123 456, srcHasher_out = poseidon1 e 1,
      freshCheck_n2b_in = 4294967306,
      freshCheck_n2b_out = map (\<lambda>i. of_nat ((4294967306 div 2 ^ i) mod 2)) [0..<33],
      freshCheck_out = 0, freshOk = 0, authOk = 0,
      classDiff = - 3, classDiffInv = - 1 / 3,
      isZero = 0, noContraindication = 1, validCtx = 0, computedOutcome = 0\<rparr>"

section \<open>Evaluation in the residue ring\<close>

lemma Rep_of_nat: "Rep_fr (of_nat n) = int n mod bn128_r"
proof (induction n)
  case 0
  show ?case by (simp add: zero_fr.rep_eq)
next
  case (Suc n)
  then show ?case
    using r_gt1 by (simp add: plus_fr.rep_eq one_fr.rep_eq mod_simps add.commute)
qed

lemma Rep_numeral: "Rep_fr (numeral k) = numeral k mod bn128_r"
  using Rep_of_nat [of "numeral k"] by simp

lemma r_is_zero: "(21888242871839275222246405745257275088548364400416034343698204186575808495617 :: fr) = 0"
proof -
  have "Rep_fr 21888242871839275222246405745257275088548364400416034343698204186575808495617 = Rep_fr 0"
    unfolding Rep_numeral zero_fr.rep_eq by (simp add: bn128_r_def)
  then show ?thesis by (simp only: Rep_fr_inject)
qed

lemma three_inverse:
  "(3::fr) * 14592161914559516814830937163504850059032242933610689562465469457717205663745 = 1"
proof -
  have "(3::fr) * 14592161914559516814830937163504850059032242933610689562465469457717205663745
      = 2 * 21888242871839275222246405745257275088548364400416034343698204186575808495617 + 1"
    by simp
  then show ?thesis unfolding r_is_zero by simp
qed

lemma val_minus_one:
  "fr_val (- 1) = 21888242871839275222246405745257275088548364400416034343698204186575808495616"
proof -
  have "Rep_fr (- 1) = bn128_r - 1"
    using r_gt1 by (simp add: uminus_fr.rep_eq one_fr.rep_eq zmod_minus1)
  then show ?thesis by (simp add: fr_val_def bn128_r_def)
qed

lemma val_90: "fr_val 90 = 90"
  by (simp add: fr_val_def Rep_numeral bn128_r_def)

text \<open>The reading of residues is canonical.\<close>

lemma canonical_fr: "canonical fr_val"
proof -
  have "fr_val (of_nat n) = n" if "n < 2 ^ 33" for n
  proof -
    from that have "int n < 2 ^ 33" by (metis of_nat_less_iff of_nat_numeral of_nat_power)
    then have "int n < bn128_r" by (simp add: bn128_r_def)
    then show ?thesis by (simp add: fr_val_def Rep_of_nat)
  qed
  then show ?thesis by (simp add: canonical_def)
qed

section \<open>Bit decompositions\<close>

lemma boolean_cases:
  fixes b :: "'a::idom"
  shows "b * (b - 1) = 0 \<longleftrightarrow> b = 0 \<or> b = 1"
  by auto

lemma lc1_linear:
  "Num2Bits_lc1 out e2 lc1 = lc1 + e2 * Num2Bits_lc1 out 1 0"
proof (induction out arbitrary: e2 lc1)
  case Nil
  show ?case by simp
next
  case (Cons b out)
  have "Num2Bits_lc1 (b # out) e2 lc1 = (lc1 + b * e2) + (e2 + e2) * Num2Bits_lc1 out 1 0"
    using Cons.IH [of "e2 + e2" "lc1 + b * e2"] by simp
  moreover have "Num2Bits_lc1 (b # out) 1 0 = b + (1 + 1) * Num2Bits_lc1 out 1 0"
    using Cons.IH [of "1 + 1" "0 + b * 1"] by simp
  ultimately show ?case by (simp add: algebra_simps)
qed

lemma lc1_Cons: "Num2Bits_lc1 (b # out) 1 0 = b + 2 * Num2Bits_lc1 out 1 0"
  using lc1_linear [of out "1 + 1" "0 + b * 1"] by simp

lemma lc1_boolean:
  fixes out :: "'a::idom list"
  assumes "list_all (\<lambda>b. b * (b - 1) = 0) out"
  shows "Num2Bits_lc1 out 1 0 = of_nat (bitsNat out)"
  using assms
proof (induction out)
  case Nil
  show ?case by simp
next
  case (Cons b out)
  then have b: "b = 0 \<or> b = 1" and rest: "Num2Bits_lc1 out 1 0 = of_nat (bitsNat out)"
    by (simp_all add: boolean_cases)
  have "Num2Bits_lc1 (b # out) 1 0 = b + 2 * of_nat (bitsNat out)"
    by (simp only: lc1_Cons rest)
  with b show ?case by auto
qed

lemma bitsNat_less: "bitsNat out < 2 ^ length out"
  by (induction out) auto

lemma bitsNat_nth:
  fixes out :: "'a::idom list"
  assumes "list_all (\<lambda>b. b * (b - 1) = 0) out" and "i < length out"
  shows "out ! i = of_nat ((bitsNat out div 2 ^ i) mod 2)"
  using assms
proof (induction out arbitrary: i)
  case Nil
  then show ?case by simp
next
  case (Cons b out)
  then have b: "b = 0 \<or> b = 1" and all: "list_all (\<lambda>b. b * (b - 1) = 0) out"
    by (simp_all add: boolean_cases)
  show ?case
  proof (cases i)
    case 0
    with b show ?thesis by auto
  next
    case (Suc j)
    with Cons.prems have j: "j < length out" by simp
    have "bitsNat (b # out) div 2 = bitsNat out" by simp
    then have "(bitsNat (b # out) div 2 ^ Suc j) = bitsNat out div 2 ^ j"
      by (simp only: power_Suc div_mult2_eq)
    with Suc Cons.IH [OF all j] show ?thesis by simp
  qed
qed

lemma of_nat_inj_small:
  fixes m n :: nat
  assumes char: "\<forall>k. 0 < k \<and> k < N \<longrightarrow> (of_nat k :: 'a::ring_1) \<noteq> 0"
    and "m < N" "n < N" and eq: "(of_nat m :: 'a) = of_nat n"
  shows "m = n"
proof (rule ccontr)
  assume ne: "m \<noteq> n"
  show False
  proof (cases "m < n")
    case True
    then have "(of_nat (n - m) :: 'a) = of_nat n - of_nat m" by (simp add: of_nat_diff)
    with eq have "(of_nat (n - m) :: 'a) = 0" by simp
    moreover have "0 < n - m" "n - m < N" using True assms(3) by auto
    ultimately show False using char by blast
  next
    case False
    with ne have lt: "n < m" by simp
    then have "(of_nat (m - n) :: 'a) = of_nat m - of_nat n" by (simp add: of_nat_diff)
    with eq have "(of_nat (m - n) :: 'a) = 0" by simp
    moreover have "0 < m - n" "m - n < N" using lt assms(2) by auto
    ultimately show False using char by blast
  qed
qed

lemma top_bit:
  fixes m :: nat
  assumes "m < 2 ^ Suc n"
  shows "(m div 2 ^ n) mod 2 = (if m < 2 ^ n then 0 else 1)"
proof (cases "m < 2 ^ n")
  case True
  then show ?thesis by simp
next
  case False
  then have "2 ^ n \<le> m" by simp
  then have "1 \<le> m div 2 ^ n" by (simp add: div_greater_zero_iff Suc_le_eq)
  moreover have "m div 2 ^ n < 2" using assms by (simp add: less_mult_imp_div_less mult.commute)
  ultimately have "m div 2 ^ n = 1" by simp
  with False show ?thesis by simp
qed

lemma Num2Bits_value:
  fixes out :: "'a::idom list"
  assumes "Num2Bits n x out"
  shows "x = of_nat (bitsNat out) \<and> bitsNat out < 2 ^ n \<and>
         (\<forall>i<n. out ! i = of_nat ((bitsNat out div 2 ^ i) mod 2))"
  using assms lc1_boolean [of out] bitsNat_less [of out] bitsNat_nth [of out]
  by (auto simp add: Num2Bits_def)

lemma bits_of_nat_boolean:
  "list_all (\<lambda>b. b * (b - 1) = 0) (map (\<lambda>i. (of_nat ((m div 2 ^ i) mod 2) :: 'a::comm_ring_1)) [0..<n])"
proof -
  have "\<And>k::nat. (of_nat (k mod 2) :: 'a) * (of_nat (k mod 2) - 1) = 0"
  proof -
    fix k :: nat
    have "k mod 2 = 0 \<or> k mod 2 = 1" by auto
    then show "(of_nat (k mod 2) :: 'a) * (of_nat (k mod 2) - 1) = 0" by auto
  qed
  then show ?thesis by (simp add: list_all_iff)
qed

lemma bits_of_nat_lc1:
  "Num2Bits_lc1 (map (\<lambda>i. (of_nat ((m div 2 ^ i) mod 2) :: 'a::comm_ring_1)) [0..<n]) 1 0 =
     of_nat (m mod 2 ^ n)"
proof (induction n arbitrary: m)
  case 0
  show ?case by simp
next
  case (Suc n)
  have "map (\<lambda>i. (of_nat ((m div 2 ^ i) mod 2) :: 'a)) [0..<Suc n] =
        of_nat (m mod 2) # map (\<lambda>i. of_nat ((m div 2 div 2 ^ i) mod 2)) [0..<n]"
    by (simp add: map_upt_Suc div_mult2_eq del: upt_Suc)
  then have "Num2Bits_lc1 (map (\<lambda>i. (of_nat ((m div 2 ^ i) mod 2) :: 'a)) [0..<Suc n]) 1 0 =
        of_nat (m mod 2) + 2 * of_nat ((m div 2) mod 2 ^ n)"
    by (simp only: lc1_Cons Suc.IH)
  also have "\<dots> = of_nat (m mod 2 + 2 * ((m div 2) mod 2 ^ n))" by simp
  also have "m mod 2 + 2 * ((m div 2) mod 2 ^ n) = m mod 2 ^ Suc n"
    by (simp add: mod_mult2_eq)
  finally show ?case .
qed

lemma length_hint: "length (Num2Bits_hint val n x) = n"
  by (simp add: Num2Bits_hint_def)

lemma hint_lc1:
  "Num2Bits_lc1 (Num2Bits_hint val n x) 1 0 = of_nat (val x mod 2 ^ n)"
  unfolding Num2Bits_hint_def by (rule bits_of_nat_lc1)

lemma hint_of_small:
  fixes val :: "'a::comm_ring_1 \<Rightarrow> nat"
  assumes can: "\<forall>n<2 ^ 33. val (of_nat n) = n" and m: "m < 2 ^ 33"
  shows "Num2Bits_hint val 33 (of_nat m) = map (\<lambda>i. of_nat ((m div 2 ^ i) mod 2)) [0..<33]"
    and "list_all (\<lambda>b. b * (b - 1) = 0) (Num2Bits_hint val 33 (of_nat m))"
    and "Num2Bits_lc1 (Num2Bits_hint val 33 (of_nat m)) 1 0 = of_nat m"
    and "Num2Bits_hint val 33 (of_nat m) ! 32 = (if m < 2 ^ 32 then 0 else 1)"
proof -
  from can m have v: "val (of_nat m) = m" by blast
  show eq: "Num2Bits_hint val 33 (of_nat m) = map (\<lambda>i. of_nat ((m div 2 ^ i) mod 2)) [0..<33]"
    unfolding Num2Bits_hint_def v ..
  show "list_all (\<lambda>b. b * (b - 1) = 0) (Num2Bits_hint val 33 (of_nat m))"
    unfolding eq by (rule bits_of_nat_boolean)
  show "Num2Bits_lc1 (Num2Bits_hint val 33 (of_nat m)) 1 0 = of_nat m"
    unfolding eq bits_of_nat_lc1 using m by simp
  have "Num2Bits_hint val 33 (of_nat m) ! 32 = of_nat ((m div 2 ^ 32) mod 2)"
    unfolding eq by (simp del: upt_Suc)
  also have "(m div 2 ^ 32) mod 2 = (if m < 2 ^ 32 then 0 else 1)"
    using top_bit [of m 32] m by simp
  finally show "Num2Bits_hint val 33 (of_nat m) ! 32 = (if m < 2 ^ 32 then 0 else 1)"
    by simp
qed

lemma check3_value:
  fixes w :: "'a::idom witness"
  assumes "check3 w"
  shows "\<exists>m<2 ^ 33. dataAge (inp w) + 2 ^ 32 - deltaMax (inp w) = of_nat m \<and>
           freshCheck_n2b_out w = map (\<lambda>i. of_nat ((m div 2 ^ i) mod 2)) [0..<33] \<and>
           freshCheck_n2b_in w = of_nat m \<and>
           freshCheck_out w = (if m < 2 ^ 32 then 1 else 0) \<and>
           freshOk w = (if m < 2 ^ 32 then 1 else 0)"
proof -
  let ?out = "freshCheck_n2b_out w"
  let ?m = "bitsNat ?out"
  from assms have n2b': "Num2Bits (32 + 1) (freshCheck_n2b_in w) ?out"
    and inp: "freshCheck_n2b_in w = dataAge (inp w) + 2 ^ 32 - deltaMax (inp w)"
    and out: "freshCheck_out w = 1 - ?out ! 32" and fo: "freshOk w = freshCheck_out w"
    unfolding check3_def LessThan_def by blast+
  from n2b' have n2b: "Num2Bits 33 (freshCheck_n2b_in w) ?out" by simp
  from Num2Bits_value [OF n2b]
  have v: "freshCheck_n2b_in w = of_nat ?m" and lt: "?m < 2 ^ 33"
    and nth: "\<forall>i<33. ?out ! i = of_nat ((?m div 2 ^ i) mod 2)" by auto
  from n2b have len: "length ?out = 33" by (simp add: Num2Bits_def)
  have bits: "?out = map (\<lambda>i. of_nat ((?m div 2 ^ i) mod 2)) [0..<33]"
    by (rule nth_equalityI) (use len nth in \<open>auto simp del: upt_Suc\<close>)
  have "(?m div 2 ^ 32) mod 2 = (if ?m < 2 ^ 32 then 0 else 1)"
    using top_bit [of ?m 32] lt by simp
  moreover from nth have "?out ! 32 = of_nat ((?m div 2 ^ 32) mod 2)" by simp
  ultimately have "?out ! 32 = (if ?m < 2 ^ 32 then 0 else 1)" by simp
  with out fo have "freshCheck_out w = (if ?m < 2 ^ 32 then 1 else 0)" by simp
  with lt inp v bits fo show ?thesis by (intro exI [of _ ?m]) simp
qed

lemma check5_value:
  fixes w :: "'a::idom witness"
  assumes "check5 w"
  shows "noContraindication w = (if allergyClassId (inp w) = medicationClassId (inp w) then 0 else 1)"
  using assms by (auto simp add: check5_def is_zero_pattern_def)

section \<open>The witness generator\<close>

lemma build_sound:
  assumes "buildWitness val H2 H1 i = Inr w"
  shows "PrescriptionValidation H2 H1 w \<and> inp w = i"
proof -
  from assms show ?thesis
    unfolding buildWitness_def Let_def
    by (auto simp add: PrescriptionValidation_def check1_def check2_def check3_def check4_def
          check5_def is_zero_pattern_def composition_def LessThan_def Num2Bits_def length_hint split: if_splits)
qed

lemma build_value:
  fixes val :: "'a::field \<Rightarrow> nat"
  assumes can: "\<forall>n<2 ^ 33. val (of_nat n) = n"
    and h1: "H2 (doctorId i) (doctorSecret i) = doctorCredentialHash i"
    and h2: "H1 (sourceId i) = trustedSourceHash i"
    and h4: "authorizedAction i = requiredAction i"
    and m: "m < 2 ^ 33" and n2b: "dataAge i + 2 ^ 32 - deltaMax i = of_nat m"
    and out: "outcome i = (if m < 2 ^ 32 then 1 else 0) * (if allergyClassId i = medicationClassId i then 0 else 1)"
  shows "\<exists>w. buildWitness val H2 H1 i = Inr w \<and>
           freshOk w = (if m < 2 ^ 32 then 1 else 0) \<and>
           noContraindication w = (if allergyClassId i = medicationClassId i then 0 else 1)"
proof -
  note hs = hint_of_small [OF can m]
  from hs(2) have bool: "list_all (\<lambda>b. b = 0 \<or> b = 1) (Num2Bits_hint val 33 (of_nat m))"
    by simp
  show ?thesis
    unfolding buildWitness_def Let_def n2b
    using h1 h2 h4 out by (simp add: bool hs(3,4))
qed

lemma canonical_char:
  fixes val :: "'a::semiring_1 \<Rightarrow> nat"
  assumes "canonical val"
  shows "\<forall>k. 0 < k \<and> k < 2 ^ 33 \<longrightarrow> (of_nat k :: 'a) \<noteq> 0"
proof (intro allI impI notI)
  fix k :: nat
  assume k: "0 < k \<and> k < 2 ^ 33" and z: "(of_nat k :: 'a) = 0"
  from assms k have "val (of_nat k) = k" by (simp add: canonical_def)
  moreover from assms have "val (of_nat 0) = 0" by (simp add: canonical_def del: of_nat_0)
  ultimately show False using k z by simp
qed

lemma build_complete:
  fixes val :: "'a::field \<Rightarrow> nat"
  assumes can: "canonical val"
    and h1: "H2 (doctorId (inp w0)) (doctorSecret (inp w0)) = doctorCredentialHash (inp w0)"
    and h2: "H1 (sourceId (inp w0)) = trustedSourceHash (inp w0)"
    and h4: "authorizedAction (inp w0) = requiredAction (inp w0)"
    and c3: "check3 w0" and c5: "check5 w0"
    and out: "outcome (inp w0) = freshOk w0 * noContraindication w0"
  shows "\<exists>w. buildWitness val H2 H1 (inp w0) = Inr w \<and> inp w = inp w0 \<and>
           PrescriptionValidation H2 H1 w"
proof -
  from check3_value [OF c3] obtain m where m: "m < 2 ^ 33"
    and eq: "dataAge (inp w0) + 2 ^ 32 - deltaMax (inp w0) = of_nat m"
    and fo: "freshOk w0 = (if m < 2 ^ 32 then 1 else 0)" by blast
  from can have can': "\<forall>n<2 ^ 33. val (of_nat n) = n" by (simp add: canonical_def)
  from out fo check5_value [OF c5]
  have "outcome (inp w0) = (if m < 2 ^ 32 then 1 else 0) *
          (if allergyClassId (inp w0) = medicationClassId (inp w0) then 0 else 1)" by simp
  from build_value [of val H2 "inp w0" H1 m, OF can' h1 h2 h4 m eq this]
  obtain w where w: "buildWitness val H2 H1 (inp w0) = Inr w" by blast
  with build_sound [OF w] show ?thesis by blast
qed

lemma fullProve_Inr:
  fixes prove :: "'a::field witness \<Rightarrow> 'prf"
  shows "buildWitness val H2 H1 i = Inr w \<Longrightarrow>
   groth16_fullProve val H2 H1 prove i = Inr (prove w, publicSignals w)"
  by (simp add: groth16_fullProve_def)

lemma publicSignals_vector: "publicSignals w = publicInputVector (inp w)"
  by (simp add: publicSignals_def publicInputVector_def)

lemma observed_built:
  fixes prove :: "'a::field witness \<Rightarrow> 'prf"
  assumes "buildWitness val H2 H1 i = Inr w"
  shows "observed (pipeline_env val H2 H1 prove vrf vk) i =
           (True, vrf vk (publicInputVector i) (prove w))"
proof -
  from build_sound [OF assms] have "inp w = i" by simp
  then show ?thesis
    using fullProve_Inr [OF assms, of prove]
    by (simp add: observed_def pipeline_env_def tryProve_def publicSignals_vector)
qed

lemma observed_failed:
  fixes prove :: "'a::field witness \<Rightarrow> 'prf"
  assumes "buildWitness val H2 H1 i = Inl err"
  shows "observed (pipeline_env val H2 H1 prove vrf vk) i = (False, False)"
  using assms
  by (simp add: observed_def pipeline_env_def tryProve_def groth16_fullProve_def)

lemma observed_oracle:
  assumes "buildWitness val H2 H1 i = Inr w"
  shows "observed (pipeline_env val H2 H1 (oracle_prove vk) oracle_verify vk) i = (True, True)"
proof -
  from build_sound [OF assms] have "inp w = i" by simp
  then show ?thesis
    unfolding observed_built [OF assms] by (simp add: oracle_prove_def oracle_verify_def)
qed

lemma numeral_2_neq_5:
  fixes val :: "'a::field \<Rightarrow> nat"
  assumes "canonical val"
  shows "(2::'a) \<noteq> 5"
proof
  assume "(2::'a) = 5"
  then have "(5::'a) - 2 = 0" by simp
  then have "(of_nat 3 :: 'a) = 0" by simp
  moreover have "(0::nat) < 3 \<and> (3::nat) < 2 ^ 33" by simp
  ultimately show False using canonical_char [OF assms] by blast
qed

lemma baseline_builds:
  fixes val :: "'a::field \<Rightarrow> nat"
  assumes can: "canonical val"
  shows "\<exists>w. buildWitness val H2 H1 (S1_input (pipeline_env val H2 H1 prove vrf vk)) = Inr w"
proof -
  let ?e = "pipeline_env val H2 H1 prove vrf vk"
  from can have can': "\<forall>n<2 ^ 33. val (of_nat n) = n" by (simp add: canonical_def)
  have m: "(4294967236::nat) < 2 ^ 33" by simp
  have eq: "dataAge (S1_input ?e) + 2 ^ 32 - deltaMax (S1_input ?e) = (of_nat 4294967236 :: 'a)"
    by (simp add: S1_input_def)
  have out: "outcome (S1_input ?e) = (if (4294967236::nat) < 2 ^ 32 then 1 else 0) *
      (if allergyClassId (S1_input ?e) = medicationClassId (S1_input ?e) then 0 else (1::'a))"
    using numeral_2_neq_5 [OF can] by (simp add: S1_input_def)
  have h1: "H2 (doctorId (S1_input ?e)) (doctorSecret (S1_input ?e)) = doctorCredentialHash (S1_input ?e)"
    and h2: "H1 (sourceId (S1_input ?e)) = trustedSourceHash (S1_input ?e)"
    and h4: "authorizedAction (S1_input ?e) = requiredAction (S1_input ?e)"
    by (simp_all add: S1_input_def credHash_def srcHash_def pipeline_env_def)
  from build_value [of val H2 "S1_input ?e" H1 4294967236, OF can' h1 h2 h4 m eq out]
  show ?thesis by blast
qed

section \<open>The concrete field and oracles\<close>

text \<open>
  The statements below hold in every field (or integral domain) with a canonical reading;
  the scalar field of the curve is one, its residues being read canonically
  (\<open>canonical_fr\<close>), but the primality of its modulus is not re-proved here. The
  statements are therefore instantiated over the rational numbers, and evaluations that
  need the ring operations only are carried out over the residues themselves.
\<close>

lemma canonical_rat: "canonical rat_val"
  by (simp add: canonical_def rat_val_def)

lemma char_rat: "\<forall>k. 0 < k \<and> k < 2 ^ 33 \<longrightarrow> (of_nat k :: rat) \<noteq> 0"
  by simp

lemma toy_env_sel:
  "poseidon2 toy_env = (\<lambda>a b. 1000 * a + b)" "poseidon1 toy_env = (\<lambda>a. a + 7)"
  "fullProve toy_env =
     groth16_fullProve rat_val (\<lambda>a b. 1000 * a + b) (\<lambda>a. a + 7)
       (oracle_prove \<lparr>IC = [[''1234567'', ''2'', ''1'']], rest = ()\<rparr>)"
  "verify toy_env = oracle_verify" "vKey toy_env = \<lparr>IC = [[''1234567'', ''2'', ''1'']], rest = ()\<rparr>"
  by (simp_all add: toy_env_def pipeline_env_def)

section \<open>The hard checks\<close>

text \<open>
  C2. If the credential hash, the source hash or the action of an input assignment does
  not match its public commitment or policy value, then no assignment with these inputs
  satisfies the constraint system and the witness generator fails, whatever outcome is
  declared.
\<close>

theorem hard_check_soundness:
  fixes val :: "'a::field \<Rightarrow> nat"
  assumes "H2 (doctorId i) (doctorSecret i) \<noteq> doctorCredentialHash i \<or>
           H1 (sourceId i) \<noteq> trustedSourceHash i \<or>
           authorizedAction i \<noteq> requiredAction i"
  shows "\<forall>declared.
           (\<forall>w. inp w = i\<lparr>outcome := declared\<rparr> \<longrightarrow> \<not> PrescriptionValidation H2 H1 w) \<and>
           (\<exists>err. buildWitness val H2 H1 (i\<lparr>outcome := declared\<rparr>) = Inl err)"
proof
  fix declared
  let ?i = "i\<lparr>outcome := declared\<rparr>"
  have none: "\<not> PrescriptionValidation H2 H1 w" if "inp w = ?i" for w
    using assms that
    by (auto simp add: PrescriptionValidation_def check1_def check2_def check4_def)
  have "\<exists>err. buildWitness val H2 H1 ?i = Inl err"
  proof (cases "buildWitness val H2 H1 ?i")
    case (Inl err)
    then show ?thesis by blast
  next
    case (Inr w)
    from build_sound [OF Inr] none [of w] show ?thesis by simp
  qed
  with none show "(\<forall>w. inp w = ?i \<longrightarrow> \<not> PrescriptionValidation H2 H1 w) \<and>
           (\<exists>err. buildWitness val H2 H1 ?i = Inl err)" by blast
qed

theorem hard_check_soundness_witness:
  "poseidon2 toy_env (doctorId (S2_input toy_env)) (doctorSecret (S2_input toy_env))
     \<noteq> doctorCredentialHash (S2_input toy_env) \<and>
   \<not> (\<exists>w. inp w = S2_input toy_env \<and>
          PrescriptionValidation (poseidon2 toy_env) (poseidon1 toy_env) w) \<and>
   (\<exists>err. buildWitness rat_val (poseidon2 toy_env) (poseidon1 toy_env) (S2_input toy_env) = Inl err)"
proof -
  have ne: "poseidon2 toy_env (doctorId (S2_input toy_env)) (doctorSecret (S2_input toy_env))
     \<noteq> doctorCredentialHash (S2_input toy_env)"
    by (simp add: toy_env_sel S2_input_def credHash_def)
  have same: "(S2_input toy_env)\<lparr>outcome := 1\<rparr> = S2_input toy_env"
    by (simp add: S2_input_def)
  from hard_check_soundness [of "poseidon2 toy_env" "S2_input toy_env" "poseidon1 toy_env" rat_val] ne
  have "(\<forall>w. inp w = (S2_input toy_env)\<lparr>outcome := 1\<rparr> \<longrightarrow>
            \<not> PrescriptionValidation (poseidon2 toy_env) (poseidon1 toy_env) w) \<and>
        (\<exists>err. buildWitness rat_val (poseidon2 toy_env) (poseidon1 toy_env)
            ((S2_input toy_env)\<lparr>outcome := 1\<rparr>) = Inl err)"
    by blast
  with ne show ?thesis unfolding same by blast
qed

section \<open>The is-zero pattern\<close>

text \<open>
  C4. In any integral domain, an assignment that satisfies the is-zero pattern has
  \<open>isZero = 1\<close> if \<open>classDiff = 0\<close> and \<open>isZero = 0\<close> otherwise, whatever the hint
  is; and for \<open>classDiff = 0\<close> the pattern holds with \<open>isZero = 1\<close> for every hint.
\<close>

theorem is_zero_gadget:
  fixes d :: "'a::idom"
  shows "(is_zero_pattern d h z \<longrightarrow> (d = 0 \<longrightarrow> z = 1) \<and> (d \<noteq> 0 \<longrightarrow> z = 0)) \<and>
         is_zero_pattern 0 h 1"
  by (auto simp add: is_zero_pattern_def)

theorem is_zero_gadget_witness:
  "is_zero_pattern (3::rat) (1 / 3) 0 \<and> (3::rat) \<noteq> 0 \<and>
   is_zero_pattern (0::rat) 0 1 \<and> is_zero_pattern (0::rat) 7 1"
  using is_zero_gadget [of "3::rat" "1 / 3" 0] is_zero_gadget [of "0::rat" 0 1]
    is_zero_gadget [of "0::rat" 7 1]
  by (simp add: is_zero_pattern_def)

section \<open>The freshness comparator\<close>

text \<open>
  C5. For \<open>dataAge\<close> and \<open>deltaMax\<close> that are natural numbers below \<open>2^32\<close>, in a
  field in which the natural numbers below \<open>2^33\<close> are distinct, the freshness check has
  a satisfying assignment, and in every such assignment \<open>freshOk\<close> is 1 exactly when
  \<open>dataAge < deltaMax\<close> and 0 otherwise.
\<close>

theorem freshness_strict:
  fixes i :: "'a::idom inputs"
  assumes char: "\<forall>k. 0 < k \<and> k < 2 ^ 33 \<longrightarrow> (of_nat k :: 'a) \<noteq> 0"
    and a: "a < 2 ^ 32" and b: "b < 2 ^ 32"
    and da: "dataAge i = of_nat a" and dm: "deltaMax i = of_nat b"
  shows "(\<exists>w. inp w = i \<and> check3 w) \<and>
         (\<forall>w. inp w = i \<and> check3 w \<longrightarrow>
            (freshOk w = 1 \<longleftrightarrow> a < b) \<and> (freshOk w = 0 \<longleftrightarrow> \<not> a < b))"
proof -
  let ?m = "a + 2 ^ 32 - b"
  have m: "?m < 2 ^ 33" using a b by simp
  have n2b: "dataAge i + 2 ^ 32 - deltaMax i = (of_nat ?m :: 'a)"
    using b by (simp add: da dm of_nat_diff)
  have low: "?m < 2 ^ 32 \<longleftrightarrow> a < b" using a b by auto
  let ?bits = "map (\<lambda>k. (of_nat ((?m div 2 ^ k) mod 2) :: 'a)) [0..<33]"
  let ?w = "\<lparr>inp = i, credHasher_out = 0, srcHasher_out = 0,
             freshCheck_n2b_in = of_nat ?m, freshCheck_n2b_out = ?bits,
             freshCheck_out = 1 - ?bits ! 32, freshOk = 1 - ?bits ! 32, authOk = 0,
             classDiff = 0, classDiffInv = 0, isZero = 0, noContraindication = 0,
             validCtx = 0, computedOutcome = 0\<rparr>"
  have lc: "Num2Bits_lc1 ?bits 1 0 = of_nat ?m"
    using bits_of_nat_lc1 [of ?m 33, where ?'a = 'a] m by simp
  have "check3 ?w"
    unfolding check3_def LessThan_def Num2Bits_def
    using bits_of_nat_boolean [of ?m 33, where ?'a = 'a] lc n2b
    by (simp del: upt_Suc)
  then have ex: "\<exists>w. inp w = i \<and> check3 w" by (intro exI [of _ ?w]) simp
  have all: "(freshOk w = 1 \<longleftrightarrow> a < b) \<and> (freshOk w = 0 \<longleftrightarrow> \<not> a < b)"
    if w: "inp w = i \<and> check3 w" for w
  proof -
    from check3_value [of w] w obtain m' where m': "m' < 2 ^ 33"
      and eq: "dataAge i + 2 ^ 32 - deltaMax i = (of_nat m' :: 'a)"
      and fo: "freshOk w = (if m' < 2 ^ 32 then 1 else 0)" by auto
    from eq n2b have "(of_nat m' :: 'a) = of_nat ?m" by simp
    from of_nat_inj_small [OF char m' m this] have "m' = ?m" .
    with fo low show ?thesis by auto
  qed
  from ex all show ?thesis by blast
qed

theorem freshness_strict_witness:
  "(\<exists>w. inp w = boundary_input toy_env 89 \<and> check3 w \<and> freshOk w = 1) \<and>
   (\<exists>w. inp w = boundary_input toy_env 90 \<and> check3 w \<and> freshOk w = 0) \<and>
   (\<exists>w. inp w = boundary_input toy_env 100 \<and> check3 w \<and> freshOk w = 0)"
proof -
  have dm: "deltaMax (boundary_input toy_env a) = of_nat 90" for a
    by (simp add: boundary_input_def S1_input_def)
  have da: "dataAge (boundary_input toy_env a) = of_nat a" for a
    by (simp add: boundary_input_def)
  have b: "(90::nat) < 2 ^ 32" by simp
  have "(89::nat) < 2 ^ 32" by simp
  from freshness_strict [OF char_rat this b da dm]
  have 1: "\<exists>w. inp w = boundary_input toy_env 89 \<and> check3 w \<and> freshOk w = 1" by auto
  have "(90::nat) < 2 ^ 32" by simp
  from freshness_strict [OF char_rat this b da dm]
  have 2: "\<exists>w. inp w = boundary_input toy_env 90 \<and> check3 w \<and> freshOk w = 0" by auto
  have "(100::nat) < 2 ^ 32" by simp
  from freshness_strict [OF char_rat this b da dm]
  have 3: "\<exists>w. inp w = boundary_input toy_env 100 \<and> check3 w \<and> freshOk w = 0" by auto
  from 1 2 3 show ?thesis by blast
qed

text \<open>
  C3 (as amended). In every satisfying assignment the comparator bounds the difference
  \<open>dataAge + 2^32 - deltaMax\<close>, not the operands: the difference is a natural number
  below \<open>2^33\<close>, and \<open>freshOk\<close> is 1 exactly when it is below \<open>2^32\<close>.
\<close>

theorem comparator_checks_difference_only:
  fixes w :: "'a::idom witness"
  assumes "PrescriptionValidation H2 H1 w"
  shows "\<exists>m<2 ^ 33. dataAge (inp w) + 2 ^ 32 - deltaMax (inp w) = of_nat m \<and>
           freshOk w = (if m < 2 ^ 32 then 1 else 0)"
proof -
  from assms have "check3 w" by (simp add: PrescriptionValidation_def)
  from check3_value [OF this] show ?thesis by blast
qed

theorem comparator_checks_difference_only_witness:
  "\<exists>w. inp w = S1_input toy_env \<and>
       PrescriptionValidation (poseidon2 toy_env) (poseidon1 toy_env) w \<and>
       (\<exists>m<2 ^ 33. dataAge (inp w) + 2 ^ 32 - deltaMax (inp w) = of_nat m \<and>
           freshOk w = (if m < 2 ^ 32 then 1 else 0))"
proof -
  from baseline_builds [OF canonical_rat, of "\<lambda>a b. 1000 * a + b" "\<lambda>a. a + 7"
      "oracle_prove \<lparr>IC = [[''1234567'', ''2'', ''1'']], rest = ()\<rparr>" oracle_verify
      "\<lparr>IC = [[''1234567'', ''2'', ''1'']], rest = ()\<rparr>"]
  obtain w where w: "buildWitness rat_val (poseidon2 toy_env) (poseidon1 toy_env) (S1_input toy_env) = Inr w"
    by (auto simp add: toy_env_def toy_env_sel [unfolded toy_env_def])
  from build_sound [OF w] have pv: "PrescriptionValidation (poseidon2 toy_env) (poseidon1 toy_env) w"
    and i: "inp w = S1_input toy_env" by simp_all
  from comparator_checks_difference_only [OF pv] pv i show ?thesis by blast
qed

text \<open>
  The witness generator accepts operands outside the 32-bit width: the baseline with
  \<open>dataAge = 2^32 + 50\<close> (outcome 0), and with \<open>dataAge = -1\<close>, for which it reports
  the data as fresh.
\<close>

lemma generator_accepts_oversize_operands:
  "\<forall>e :: (rat, unit, unit) env.
     (\<exists>w. buildWitness rat_val (poseidon2 e) (poseidon1 e) (oversize_input e) = Inr w \<and>
          PrescriptionValidation (poseidon2 e) (poseidon1 e) w \<and>
          dataAge (inp w) = 2 ^ 32 + 50 \<and>
          \<not> (\<exists>n<2 ^ 32. dataAge (inp w) = of_nat n)) \<and>
     (\<exists>w. buildWitness rat_val (poseidon2 e) (poseidon1 e) (wrapped_input e) = Inr w \<and>
          PrescriptionValidation (poseidon2 e) (poseidon1 e) w \<and>
          dataAge (inp w) = - 1 \<and> freshOk w = 1 \<and>
          \<not> (\<exists>n<2 ^ 32. dataAge (inp w) = of_nat n))"
proof
  fix e :: "(rat, unit, unit) env"
  from canonical_rat have can': "\<forall>n<2 ^ 33. rat_val (of_nat n) = n" by (simp add: canonical_def)
  have 1: "\<exists>w. buildWitness rat_val (poseidon2 e) (poseidon1 e) (oversize_input e) = Inr w \<and>
          PrescriptionValidation (poseidon2 e) (poseidon1 e) w \<and>
          dataAge (inp w) = 2 ^ 32 + 50 \<and>
          \<not> (\<exists>n<2 ^ 32. dataAge (inp w) = of_nat n)"
  proof -
    have "\<exists>w. buildWitness rat_val (poseidon2 e) (poseidon1 e) (oversize_input e) = Inr w \<and>
           freshOk w = (if (8589934552::nat) < 2 ^ 32 then 1 else 0) \<and>
           noContraindication w =
             (if allergyClassId (oversize_input e) = medicationClassId (oversize_input e) then 0 else 1)"
      by (rule build_value [OF can'])
         (simp_all add: oversize_input_def S1_input_def credHash_def srcHash_def)
    then obtain w where w: "buildWitness rat_val (poseidon2 e) (poseidon1 e) (oversize_input e) = Inr w"
      by blast
    from build_sound [OF w] have pv: "PrescriptionValidation (poseidon2 e) (poseidon1 e) w"
      and i: "inp w = oversize_input e" by simp_all
    have d: "dataAge (inp w) = 2 ^ 32 + 50" by (simp add: i oversize_input_def)
    have "\<not> (\<exists>n<2 ^ 32. dataAge (inp w) = of_nat n)"
    proof
      assume "\<exists>n<2 ^ 32. dataAge (inp w) = of_nat n"
      then obtain n :: nat where n: "n < 2 ^ 32" and "(of_nat 4294967346 :: rat) = of_nat n"
        using d by auto
      then have "n = 4294967346" by (simp only: of_nat_eq_iff)
      with n show False by simp
    qed
    with w pv d show ?thesis by blast
  qed
  have 2: "\<exists>w. buildWitness rat_val (poseidon2 e) (poseidon1 e) (wrapped_input e) = Inr w \<and>
          PrescriptionValidation (poseidon2 e) (poseidon1 e) w \<and>
          dataAge (inp w) = - 1 \<and> freshOk w = 1 \<and>
          \<not> (\<exists>n<2 ^ 32. dataAge (inp w) = of_nat n)"
  proof -
    have "\<exists>w. buildWitness rat_val (poseidon2 e) (poseidon1 e) (wrapped_input e) = Inr w \<and>
           freshOk w = (if (4294967205::nat) < 2 ^ 32 then 1 else 0) \<and>
           noContraindication w =
             (if allergyClassId (wrapped_input e) = medicationClassId (wrapped_input e) then 0 else 1)"
      by (rule build_value [OF can'])
         (simp_all add: wrapped_input_def S1_input_def credHash_def srcHash_def)
    then obtain w where w: "buildWitness rat_val (poseidon2 e) (poseidon1 e) (wrapped_input e) = Inr w"
      and f: "freshOk w = 1" by auto
    from build_sound [OF w] have pv: "PrescriptionValidation (poseidon2 e) (poseidon1 e) w"
      and i: "inp w = wrapped_input e" by simp_all
    have d: "dataAge (inp w) = - 1" by (simp add: i wrapped_input_def)
    have "\<not> (\<exists>n<2 ^ 32. dataAge (inp w) = of_nat n)"
    proof
      assume "\<exists>n<2 ^ 32. dataAge (inp w) = of_nat n"
      then obtain n :: nat where "(- 1 :: rat) = of_nat n" using d by auto
      moreover have "(0::rat) \<le> of_nat n" by simp
      ultimately show False by simp
    qed
    with w pv d f show ?thesis by blast
  qed
  from 1 2 show "(\<exists>w. buildWitness rat_val (poseidon2 e) (poseidon1 e) (oversize_input e) = Inr w \<and>
          PrescriptionValidation (poseidon2 e) (poseidon1 e) w \<and>
          dataAge (inp w) = 2 ^ 32 + 50 \<and>
          \<not> (\<exists>n<2 ^ 32. dataAge (inp w) = of_nat n)) \<and>
     (\<exists>w. buildWitness rat_val (poseidon2 e) (poseidon1 e) (wrapped_input e) = Inr w \<and>
          PrescriptionValidation (poseidon2 e) (poseidon1 e) w \<and>
          dataAge (inp w) = - 1 \<and> freshOk w = 1 \<and>
          \<not> (\<exists>n<2 ^ 32. dataAge (inp w) = of_nat n))" by blast
qed

text \<open>
  Over the residues modulo the curve order, the explicit assignment of the baseline
  scenario satisfies the constraint system.
\<close>

lemma baseline_satisfies:
  "PrescriptionValidation (poseidon2 e) (poseidon1 e) (baseline_witness e)"
proof -
  let ?bits = "map (\<lambda>i. (of_nat ((4294967236 div 2 ^ i) mod 2) :: fr)) [0..<33]"
  have lc: "Num2Bits_lc1 ?bits 1 0 = 4294967236"
    using bits_of_nat_lc1 [of 4294967236 33, where ?'a = fr] by simp
  have bool: "list_all (\<lambda>b. b * (b - 1) = 0) ?bits"
    by (rule bits_of_nat_boolean)
  have top: "?bits ! 32 = 0" by (simp del: upt_Suc)
  have len: "length ?bits = 33" by simp
  have n2b: "dataAge (S1_input e) + 2 ^ 32 - deltaMax (S1_input e) = (4294967236 :: fr)"
    by (simp add: S1_input_def)
  have c3: "check3 (baseline_witness e)"
    unfolding check3_def LessThan_def Num2Bits_def baseline_witness_def
    using lc bool top len n2b by (simp del: upt_Suc map_upt_Suc)
  have "(- 3 :: fr) * - 14592161914559516814830937163504850059032242933610689562465469457717205663745 = 1"
    using three_inverse by (simp only: minus_mult_minus)
  then have c5: "check5 (baseline_witness e)"
    by (simp add: check5_def is_zero_pattern_def baseline_witness_def S1_input_def)
  show ?thesis
    unfolding PrescriptionValidation_def using c3 c5
    by (simp add: check1_def check2_def check4_def composition_def)
       (simp add: baseline_witness_def S1_input_def credHash_def srcHash_def)
qed

lemma wrapped_check3: "check3 (wrapped_witness e)"
proof -
  let ?bits = "map (\<lambda>i. (of_nat ((4294967205 div 2 ^ i) mod 2) :: fr)) [0..<33]"
  have lc: "Num2Bits_lc1 ?bits 1 0 = 4294967205"
    using bits_of_nat_lc1 [of 4294967205 33, where ?'a = fr] by simp
  have bool: "list_all (\<lambda>b. b * (b - 1) = 0) ?bits"
    by (rule bits_of_nat_boolean)
  have top: "?bits ! 32 = 0" by (simp del: upt_Suc)
  have len: "length ?bits = 33" by simp
  have n2b: "dataAge (wrapped_input e) + 2 ^ 32 - deltaMax (wrapped_input e) = (4294967205 :: fr)"
    by (simp add: wrapped_input_def S1_input_def)
  show ?thesis
    unfolding check3_def LessThan_def Num2Bits_def wrapped_witness_def
    using lc bool top len n2b by (simp del: upt_Suc map_upt_Suc)
qed

lemma wrapped_check5: "check5 (wrapped_witness e)"
proof -
  have "(- 3 :: fr) * - 14592161914559516814830937163504850059032242933610689562465469457717205663745 = 1"
    using three_inverse by (simp only: minus_mult_minus)
  then show ?thesis
    by (simp add: check5_def is_zero_pattern_def wrapped_witness_def wrapped_input_def S1_input_def)
qed

text \<open>
  C3 as stated fails. Over the residues modulo the curve order, the baseline inputs with
  \<open>dataAge = bn128_r - 1\<close> have a satisfying assignment with \<open>freshOk = 1\<close>: the
  operand is not within 32 bits, and the comparator reports it as less than
  \<open>deltaMax = 90\<close>.
\<close>

theorem comparator_wraps:
  "\<forall>e :: (fr, unit, unit) env.
     PrescriptionValidation (poseidon2 e) (poseidon1 e) (wrapped_witness e) \<and>
     freshOk (wrapped_witness e) = 1 \<and>
     fr_val (dataAge (inp (wrapped_witness e))) =
       21888242871839275222246405745257275088548364400416034343698204186575808495616 \<and>
     fr_val (deltaMax (inp (wrapped_witness e))) = 90 \<and>
     \<not> fr_val (dataAge (inp (wrapped_witness e))) < 2 ^ 32 \<and>
     \<not> fr_val (dataAge (inp (wrapped_witness e))) < fr_val (deltaMax (inp (wrapped_witness e)))"
proof
  fix e :: "(fr, unit, unit) env"
  have pv: "PrescriptionValidation (poseidon2 e) (poseidon1 e) (wrapped_witness e)"
    unfolding PrescriptionValidation_def
    using wrapped_check3 [of e] wrapped_check5 [of e]
    by (simp add: check1_def check2_def check4_def composition_def)
       (simp add: wrapped_witness_def wrapped_input_def S1_input_def credHash_def srcHash_def)
  have da: "dataAge (inp (wrapped_witness e)) = - 1"
    and dm: "deltaMax (inp (wrapped_witness e)) = 90"
    and fo: "freshOk (wrapped_witness e) = 1"
    by (simp_all add: wrapped_witness_def wrapped_input_def S1_input_def)
  show "PrescriptionValidation (poseidon2 e) (poseidon1 e) (wrapped_witness e) \<and>
     freshOk (wrapped_witness e) = 1 \<and>
     fr_val (dataAge (inp (wrapped_witness e))) =
       21888242871839275222246405745257275088548364400416034343698204186575808495616 \<and>
     fr_val (deltaMax (inp (wrapped_witness e))) = 90 \<and>
     \<not> fr_val (dataAge (inp (wrapped_witness e))) < 2 ^ 32 \<and>
     \<not> fr_val (dataAge (inp (wrapped_witness e))) < fr_val (deltaMax (inp (wrapped_witness e)))"
    unfolding da dm val_minus_one val_90 using pv fo by simp
qed

section \<open>Outcome integrity and the honest reject\<close>

lemma integrity:
  fixes w :: "'a::comm_ring_1 witness"
  assumes "allergyClassId (inp w) = medicationClassId (inp w)"
    and "PrescriptionValidation H2 H1 w"
  shows "outcome (inp w) = 0"
  using assms
  by (auto simp add: PrescriptionValidation_def check5_def is_zero_pattern_def composition_def)


lemma stale_overflow_unsat:
  fixes e :: "('a::idom, 'prf, 'k) env"
  assumes char: "\<forall>k. 0 < k \<and> k < 2 ^ 34 \<longrightarrow> (of_nat k :: 'a) \<noteq> 0"
  shows "\<not> (\<exists>w. inp w = stale_overflow_input e \<and> check3 w)"
proof
  assume "\<exists>w. inp w = stale_overflow_input e \<and> check3 w"
  then obtain w where i: "inp w = stale_overflow_input e" and c: "check3 w" by blast
  from check3_value [OF c] obtain m where m: "m < 2 ^ 33"
    and eq: "dataAge (inp w) + 2 ^ 32 - deltaMax (inp w) = (of_nat m :: 'a)" by blast
  from eq have "(of_nat 12884901798 :: 'a) = of_nat m"
    by (simp add: i stale_overflow_input_def S5a_input_def)
  moreover have "(12884901798 :: nat) < 2 ^ 34" and "m < 2 ^ 34" using m by simp_all
  ultimately have "12884901798 = m" using of_nat_inj_small [OF char] by blast
  with m show False by simp
qed

lemma stale_overflow_build_fails:
  fixes e :: "(rat, 'prf, 'k) env"
  shows "buildWitness rat_val (poseidon2 e) (poseidon1 e) (stale_overflow_input e) = Inl InNum2Bits"
proof -
  have n2b: "dataAge (stale_overflow_input e) + 2 ^ 32 - deltaMax (stale_overflow_input e)
      = (12884901798 :: rat)"
    by (simp add: stale_overflow_input_def S5a_input_def)
  have "Num2Bits_lc1 (Num2Bits_hint rat_val 33 (12884901798 :: rat)) 1 0 \<noteq> 12884901798"
    unfolding hint_lc1 by (simp add: rat_val_def)
  then show ?thesis
    unfolding buildWitness_def Let_def n2b
    by (simp add: stale_overflow_input_def S5a_input_def credHash_def srcHash_def)
qed




section \<open>Completeness\<close>

lemma check3_is_range:
  fixes i :: "'a::idom inputs"
  shows "(\<exists>w. inp w = i \<and> check3 w) \<longleftrightarrow>
         (\<exists>m<2 ^ 33. dataAge i + 2 ^ 32 - deltaMax i = of_nat m)"
proof
  assume "\<exists>w. inp w = i \<and> check3 w"
  then obtain w where "inp w = i" and "check3 w" by blast
  with check3_value [of w] show "\<exists>m<2 ^ 33. dataAge i + 2 ^ 32 - deltaMax i = of_nat m"
    by auto
next
  assume "\<exists>m<2 ^ 33. dataAge i + 2 ^ 32 - deltaMax i = of_nat m"
  then obtain m :: nat where m: "m < 2 ^ 33"
    and eq: "dataAge i + 2 ^ 32 - deltaMax i = (of_nat m :: 'a)" by blast
  let ?bits = "map (\<lambda>k. (of_nat ((m div 2 ^ k) mod 2) :: 'a)) [0..<33]"
  let ?w = "\<lparr>inp = i, credHasher_out = 0, srcHasher_out = 0,
             freshCheck_n2b_in = of_nat m, freshCheck_n2b_out = ?bits,
             freshCheck_out = 1 - ?bits ! 32, freshOk = 1 - ?bits ! 32, authOk = 0,
             classDiff = 0, classDiffInv = 0, isZero = 0, noContraindication = 0,
             validCtx = 0, computedOutcome = 0\<rparr>"
  have lc: "Num2Bits_lc1 ?bits 1 0 = of_nat m"
    using bits_of_nat_lc1 [of m 33, where ?'a = 'a] m by simp
  have "check3 ?w"
    unfolding check3_def LessThan_def Num2Bits_def
    using bits_of_nat_boolean [of m 33, where ?'a = 'a] lc eq
    by (simp del: upt_Suc)
  then show "\<exists>w. inp w = i \<and> check3 w" by (intro exI [of _ ?w]) simp
qed

lemma stale_reject_check3: "check3 (stale_reject_witness e)"
proof -
  let ?bits = "map (\<lambda>i. (of_nat ((4294967306 div 2 ^ i) mod 2) :: rat)) [0..<33]"
  have lc: "Num2Bits_lc1 ?bits 1 0 = 4294967306"
    using bits_of_nat_lc1 [of 4294967306 33, where ?'a = rat] by simp
  have bool: "list_all (\<lambda>b. b * (b - 1) = 0) ?bits"
    by (rule bits_of_nat_boolean)
  have top: "?bits ! 32 = 1" by (simp del: upt_Suc)
  have len: "length ?bits = 33" by simp
  have n2b: "dataAge (stale_reject_input e) + 2 ^ 32 - deltaMax (stale_reject_input e)
      = (4294967306 :: rat)"
    by (simp add: stale_reject_input_def S4_input_def)
  show ?thesis
    unfolding check3_def LessThan_def Num2Bits_def stale_reject_witness_def
    using lc bool top len n2b by (simp del: upt_Suc map_upt_Suc)
qed

lemma stale_reject_check5: "check5 (stale_reject_witness e)"
  by (simp add: check5_def is_zero_pattern_def stale_reject_witness_def
        stale_reject_input_def S4_input_def)

text \<open>
  C6 (as amended). Completeness, for inputs on which check 3 is satisfiable, that is with
  \<open>dataAge + 2^32 - deltaMax\<close> representable in 33 bits (\<open>check3_is_range\<close>): when the
  credential, source and action match and the declared outcome is the product of the
  \<open>freshOk\<close> and \<open>noContraindication\<close> that checks 3 and 5 compute, the witness generator
  (over a field read canonically) succeeds with these two values, the runner verifies the
  proof against its key and the public input vector of the inputs, and the oracle pair of the
  specification accepts it. The baseline S1 is such an input: it constructs and verifies.
\<close>

theorem completeness:
  fixes val :: "'a::field \<Rightarrow> nat" and prove :: "'a witness \<Rightarrow> 'prf"
  assumes can: "canonical val"
  shows "(H2 (doctorId (inp w0)) (doctorSecret (inp w0)) = doctorCredentialHash (inp w0) \<and>
          H1 (sourceId (inp w0)) = trustedSourceHash (inp w0) \<and>
          authorizedAction (inp w0) = requiredAction (inp w0) \<and>
          (\<exists>m<2 ^ 33. dataAge (inp w0) + 2 ^ 32 - deltaMax (inp w0) = of_nat m) \<and>
          check3 w0 \<and> check5 w0 \<and>
          outcome (inp w0) = freshOk w0 * noContraindication w0 \<longrightarrow>
            (\<exists>w. buildWitness val H2 H1 (inp w0) = Inr w \<and> inp w = inp w0 \<and>
                 PrescriptionValidation H2 H1 w \<and>
                 freshOk w = freshOk w0 \<and> noContraindication w = noContraindication w0 \<and>
                 observed (pipeline_env val H2 H1 prove vrf vk) (inp w0) =
                   (True, vrf vk (publicInputVector (inp w0)) (prove w)) \<and>
                 observed (pipeline_env val H2 H1 (oracle_prove vk) oracle_verify vk) (inp w0) =
                   (True, True)))
       \<and> (\<exists>w. buildWitness val H2 H1 (S1_input (pipeline_env val H2 H1 prove vrf vk)) = Inr w \<and>
               PrescriptionValidation H2 H1 w \<and>
               observed (pipeline_env val H2 H1 prove vrf vk)
                   (S1_input (pipeline_env val H2 H1 prove vrf vk)) =
                 (True, vrf vk (publicInputVector (S1_input (pipeline_env val H2 H1 prove vrf vk)))
                          (prove w)))
       \<and> S1_ok (pipeline_env val H2 H1 (oracle_prove vk) oracle_verify vk)"
proof (intro conjI impI)
  assume hyps: "H2 (doctorId (inp w0)) (doctorSecret (inp w0)) = doctorCredentialHash (inp w0) \<and>
          H1 (sourceId (inp w0)) = trustedSourceHash (inp w0) \<and>
          authorizedAction (inp w0) = requiredAction (inp w0) \<and>
          (\<exists>m<2 ^ 33. dataAge (inp w0) + 2 ^ 32 - deltaMax (inp w0) = of_nat m) \<and>
          check3 w0 \<and> check5 w0 \<and>
          outcome (inp w0) = freshOk w0 * noContraindication w0"
  then have h1: "H2 (doctorId (inp w0)) (doctorSecret (inp w0)) = doctorCredentialHash (inp w0)"
    and h2: "H1 (sourceId (inp w0)) = trustedSourceHash (inp w0)"
    and h4: "authorizedAction (inp w0) = requiredAction (inp w0)"
    and c3: "check3 w0" and c5: "check5 w0"
    and out: "outcome (inp w0) = freshOk w0 * noContraindication w0"
    by simp_all
  from check3_value [OF c3] obtain m where m: "m < 2 ^ 33"
    and eq: "dataAge (inp w0) + 2 ^ 32 - deltaMax (inp w0) = of_nat m"
    and fo: "freshOk w0 = (if m < 2 ^ 32 then 1 else 0)" by blast
  from can have can': "\<forall>n<2 ^ 33. val (of_nat n) = n" by (simp add: canonical_def)
  note nc = check5_value [OF c5]
  from out fo nc
  have "outcome (inp w0) = (if m < 2 ^ 32 then 1 else 0) *
          (if allergyClassId (inp w0) = medicationClassId (inp w0) then 0 else 1)" by simp
  from build_value [of val H2 "inp w0" H1 m, OF can' h1 h2 h4 m eq this]
  obtain w where w: "buildWitness val H2 H1 (inp w0) = Inr w"
    and fw: "freshOk w = (if m < 2 ^ 32 then 1 else 0)"
    and nw: "noContraindication w = (if allergyClassId (inp w0) = medicationClassId (inp w0) then 0 else 1)"
    by blast
  from fw fo have f: "freshOk w = freshOk w0" by simp
  from nw nc have n: "noContraindication w = noContraindication w0" by simp
  from build_sound [OF w] f n w observed_built [OF w, of prove vrf vk] observed_oracle [OF w, of vk]
  show "\<exists>w. buildWitness val H2 H1 (inp w0) = Inr w \<and> inp w = inp w0 \<and>
                 PrescriptionValidation H2 H1 w \<and>
                 freshOk w = freshOk w0 \<and> noContraindication w = noContraindication w0 \<and>
                 observed (pipeline_env val H2 H1 prove vrf vk) (inp w0) =
                   (True, vrf vk (publicInputVector (inp w0)) (prove w)) \<and>
                 observed (pipeline_env val H2 H1 (oracle_prove vk) oracle_verify vk) (inp w0) =
                   (True, True)"
    by blast
next
  let ?e = "pipeline_env val H2 H1 prove vrf vk"
  from baseline_builds [OF can, of H2 H1 prove vrf vk]
  obtain w where w: "buildWitness val H2 H1 (S1_input ?e) = Inr w" by blast
  from build_sound [OF w] w observed_built [OF w, of prove vrf vk]
  show "\<exists>w. buildWitness val H2 H1 (S1_input ?e) = Inr w \<and>
               PrescriptionValidation H2 H1 w \<and>
               observed ?e (S1_input ?e) =
                 (True, vrf vk (publicInputVector (S1_input ?e)) (prove w))"
    by blast
next
  let ?e = "pipeline_env val H2 H1 (oracle_prove vk) oracle_verify vk"
  from baseline_builds [OF can, of H2 H1 "oracle_prove vk" oracle_verify vk]
  obtain w where w: "buildWitness val H2 H1 (S1_input ?e) = Inr w" by blast
  from observed_oracle [OF w] show "S1_ok ?e"
    by (simp add: S1_ok_def observed_def)
qed

theorem completeness_witness:
  "canonical rat_val \<and>
   inp (stale_reject_witness toy_env) = stale_reject_input toy_env \<and>
   check3 (stale_reject_witness toy_env) \<and> check5 (stale_reject_witness toy_env) \<and>
   freshOk (stale_reject_witness toy_env) = 0 \<and>
   noContraindication (stale_reject_witness toy_env) = 1 \<and>
   outcome (stale_reject_input toy_env) = 0 \<and>
   (\<exists>w. buildWitness rat_val (poseidon2 toy_env) (poseidon1 toy_env)
          (stale_reject_input toy_env) = Inr w \<and>
        PrescriptionValidation (poseidon2 toy_env) (poseidon1 toy_env) w \<and>
        freshOk w = 0 \<and> noContraindication w = 1) \<and>
   observed toy_env (stale_reject_input toy_env) = (True, True) \<and>
   S1_ok toy_env"
proof -
  let ?H2 = "\<lambda>a b. 1000 * a + b :: rat" and ?H1 = "\<lambda>a. a + 7 :: rat"
  let ?vk = "\<lparr>IC = [[''1234567'', ''2'', ''1'']], rest = ()\<rparr>"
  have env: "toy_env = pipeline_env rat_val ?H2 ?H1 (oracle_prove ?vk) oracle_verify ?vk"
    by (simp add: toy_env_def)
  have i: "inp (stale_reject_witness toy_env) = stale_reject_input toy_env"
    and f: "freshOk (stale_reject_witness toy_env) = 0"
    and n: "noContraindication (stale_reject_witness toy_env) = 1"
    by (simp_all add: stale_reject_witness_def)
  have hard: "?H2 (doctorId (stale_reject_input toy_env)) (doctorSecret (stale_reject_input toy_env))
        = doctorCredentialHash (stale_reject_input toy_env)"
      "?H1 (sourceId (stale_reject_input toy_env)) = trustedSourceHash (stale_reject_input toy_env)"
      "authorizedAction (stale_reject_input toy_env) = requiredAction (stale_reject_input toy_env)"
      "outcome (stale_reject_input toy_env) = 0"
    by (simp_all add: stale_reject_input_def S4_input_def credHash_def srcHash_def toy_env_sel)
  have rng: "\<exists>m<2 ^ 33. dataAge (stale_reject_input toy_env) + 2 ^ 32
      - deltaMax (stale_reject_input toy_env) = (of_nat m :: rat)"
    by (rule exI [of _ 4294967306]) (simp add: stale_reject_input_def S4_input_def)
  from completeness [OF canonical_rat, of ?H2 "stale_reject_witness toy_env" ?H1
         "oracle_prove ?vk" oracle_verify ?vk]
       stale_reject_check3 [of toy_env] stale_reject_check5 [of toy_env] hard rng canonical_rat
  show ?thesis
    unfolding env [symmetric] i f n
    by (simp add: toy_env_sel) blast
qed

text \<open>
  C6 as stated fails outside the comparator's range: scenario S5a with \<open>dataAge = 2^33\<close>
  matches the credential, the source and the action, check 5 computes
  \<open>noContraindication = 0\<close>, so that the declared outcome 0 is the product of it with any
  \<open>freshOk\<close>; yet check 3 has no solution, \<open>fullProve\<close> throws and the scenario is
  observed as not constructed and not verified.
\<close>

theorem completeness_needs_range:
  "\<forall>e :: (rat, unit, unit) env.
     poseidon2 e (doctorId (stale_overflow_input e)) (doctorSecret (stale_overflow_input e))
       = doctorCredentialHash (stale_overflow_input e) \<and>
     poseidon1 e (sourceId (stale_overflow_input e)) = trustedSourceHash (stale_overflow_input e) \<and>
     authorizedAction (stale_overflow_input e) = requiredAction (stale_overflow_input e) \<and>
     outcome (stale_overflow_input e) = 0 \<and>
     (\<exists>w. inp w = stale_overflow_input e \<and> check5 w \<and> noContraindication w = 0) \<and>
     \<not> (\<exists>w. inp w = stale_overflow_input e \<and> check5 w \<and> noContraindication w \<noteq> 0) \<and>
     \<not> (\<exists>w. inp w = stale_overflow_input e \<and> check3 w) \<and>
     (\<exists>err. groth16_fullProve rat_val (poseidon2 e) (poseidon1 e)
              (oracle_prove (vKey e)) (stale_overflow_input e) = Inl err) \<and>
     observed (pipeline_env rat_val (poseidon2 e) (poseidon1 e) (oracle_prove (vKey e))
                 oracle_verify (vKey e)) (stale_overflow_input e) = (False, False)"
proof
  fix e :: "(rat, unit, unit) env"
  let ?i = "stale_overflow_input e"
  have sel: "poseidon2 e (doctorId ?i) (doctorSecret ?i) = doctorCredentialHash ?i"
     "poseidon1 e (sourceId ?i) = trustedSourceHash ?i"
     "authorizedAction ?i = requiredAction ?i"
     "outcome ?i = 0"
    by (simp_all add: stale_overflow_input_def S5a_input_def credHash_def srcHash_def)
  have same: "allergyClassId ?i = medicationClassId ?i"
    by (simp add: stale_overflow_input_def S5a_input_def)
  let ?w = "\<lparr>inp = ?i, credHasher_out = 0, srcHasher_out = 0,
             freshCheck_n2b_in = 0, freshCheck_n2b_out = [],
             freshCheck_out = 0, freshOk = 0, authOk = 0,
             classDiff = 0, classDiffInv = 0, isZero = 1, noContraindication = 0,
             validCtx = 0, computedOutcome = 0\<rparr>"
  have "check5 ?w" using same by (simp add: check5_def is_zero_pattern_def)
  then have c5: "\<exists>w. inp w = ?i \<and> check5 w \<and> noContraindication w = 0"
    by (intro exI [of _ ?w]) simp
  have only: "\<not> (\<exists>w. inp w = ?i \<and> check5 w \<and> noContraindication w \<noteq> 0)"
    using same check5_value by fastforce
  have no3: "\<not> (\<exists>w. inp w = ?i \<and> check3 w)"
    by (rule stale_overflow_unsat) simp
  note build = stale_overflow_build_fails [of e]
  then have thr: "\<exists>err. groth16_fullProve rat_val (poseidon2 e) (poseidon1 e)
              (oracle_prove (vKey e)) ?i = Inl err"
    by (simp add: groth16_fullProve_def)
  from sel c5 only no3 thr observed_failed [OF build, of "oracle_prove (vKey e)" oracle_verify "vKey e"]
  show "poseidon2 e (doctorId ?i) (doctorSecret ?i) = doctorCredentialHash ?i \<and>
     poseidon1 e (sourceId ?i) = trustedSourceHash ?i \<and>
     authorizedAction ?i = requiredAction ?i \<and>
     outcome ?i = 0 \<and>
     (\<exists>w. inp w = ?i \<and> check5 w \<and> noContraindication w = 0) \<and>
     \<not> (\<exists>w. inp w = ?i \<and> check5 w \<and> noContraindication w \<noteq> 0) \<and>
     \<not> (\<exists>w. inp w = ?i \<and> check3 w) \<and>
     (\<exists>err. groth16_fullProve rat_val (poseidon2 e) (poseidon1 e)
              (oracle_prove (vKey e)) ?i = Inl err) \<and>
     observed (pipeline_env rat_val (poseidon2 e) (poseidon1 e) (oracle_prove (vKey e))
                 oracle_verify (vKey e)) ?i = (False, False)"
    by blast
qed

section \<open>The report of the scenario runner\<close>

lemma report_S5b:
  "report (S5b e (S5a e (S4 e (S3 e (S2 e (S1 e initial)))))) =
    [\<lparr>sid = ''S1'', name = ''Valid baseline -- accept prescription'',
      expectProof = True, expectVerify = True,
      result = (ok (tryProve (fullProve e) (S1_input e)) \<and> verifyOf e (tryProve (fullProve e) (S1_input e)))\<rparr>,
     \<lparr>sid = ''S2'', name = ''Invalid credential -- forged doctorSecret'',
      expectProof = False, expectVerify = False,
      result = (\<not> ok (tryProve (fullProve e) (S2_input e)))\<rparr>,
     \<lparr>sid = ''S3'', name = ''Untrusted source -- sourceId not in governance registry'',
      expectProof = False, expectVerify = False,
      result = (\<not> ok (tryProve (fullProve e) (S3_input e)))\<rparr>,
     \<lparr>sid = ''S4'', name = ''Freshness violation -- dataAge exceeds deltaMax'',
      expectProof = False, expectVerify = False,
      result = (\<not> ok (tryProve (fullProve e) (S4_input e)))\<rparr>,
     \<lparr>sid = ''S5a'', name = ''Contraindication -- reject outcome proved correctly'',
      expectProof = True, expectVerify = True,
      result = (ok (tryProve (fullProve e) (S5a_input e)) \<and> verifyOf e (tryProve (fullProve e) (S5a_input e)))\<rparr>,
     \<lparr>sid = ''S5b'', name = ''Outcome integrity -- approve attempt despite contraindication'',
      expectProof = False, expectVerify = False,
      result = (\<not> ok (tryProve (fullProve e) (S5b_input e)))\<rparr>]"
  by (simp add: S1_def S2_def S3_def S4_def S5a_def S5b_def initial_def Let_def)

lemma cache_S5b:
  "proofCache (S5b e (S5a e (S4 e (S3 e (S2 e (S1 e initial)))))) ''S1'' =
     (if ok (tryProve (fullProve e) (S1_input e)) \<and> verifyOf e (tryProve (fullProve e) (S1_input e))
      then Some (tryProve (fullProve e) (S1_input e)) else None)"
  by (simp add: S1_def S2_def S3_def S4_def S5a_def S5b_def initial_def Let_def)


lemma console_S5b:
  "console (S5b e (S5a e (S4 e (S3 e (S2 e (S1 e initial)))))) =
    [printResult ''S1'' ''Valid baseline -- accept prescription''
       (ok (tryProve (fullProve e) (S1_input e)) \<and> verifyOf e (tryProve (fullProve e) (S1_input e)))
       (ok (tryProve (fullProve e) (S1_input e))) (verifyOf e (tryProve (fullProve e) (S1_input e)))
       (error (tryProve (fullProve e) (S1_input e))),
     printResult ''S2'' ''Invalid credential -- forged doctorSecret'' (\<not> ok (tryProve (fullProve e) (S2_input e)))
       (ok (tryProve (fullProve e) (S2_input e))) False (error (tryProve (fullProve e) (S2_input e))),
     printResult ''S3'' ''Untrusted source -- sourceId not in governance registry'' (\<not> ok (tryProve (fullProve e) (S3_input e)))
       (ok (tryProve (fullProve e) (S3_input e))) False (error (tryProve (fullProve e) (S3_input e))),
     printResult ''S4'' ''Freshness violation -- dataAge exceeds deltaMax'' (\<not> ok (tryProve (fullProve e) (S4_input e)))
       (ok (tryProve (fullProve e) (S4_input e))) False (error (tryProve (fullProve e) (S4_input e))),
     printResult ''S5a'' ''Contraindication -- reject outcome proved correctly''
       (ok (tryProve (fullProve e) (S5a_input e)) \<and> verifyOf e (tryProve (fullProve e) (S5a_input e)))
       (ok (tryProve (fullProve e) (S5a_input e))) (verifyOf e (tryProve (fullProve e) (S5a_input e)))
       (error (tryProve (fullProve e) (S5a_input e))),
     printResult ''S5b'' ''Outcome integrity -- approve attempt despite contraindication'' (\<not> ok (tryProve (fullProve e) (S5b_input e)))
       (ok (tryProve (fullProve e) (S5b_input e))) False (error (tryProve (fullProve e) (S5b_input e)))]"
  by (simp add: S1_def S2_def S3_def S4_def S5a_def S5b_def initial_def Let_def)

lemma S6_report:
  "report (S6 e st) =
     report st @
       (case proofCache st ''S1'' of
          Some (Ok p pub) \<Rightarrow>
            [\<lparr>sid = ''S6'', name = ''Replay / substitution -- tampered public signals'',
              expectProof = True, expectVerify = False,
              result = (\<not> verify e (vKey e) (tamper pub) p)\<rparr>]
        | _ \<Rightarrow> [])"
  by (simp add: S6_def Let_def split: option.splits prove_result.splits)

lemma S6_cache: "proofCache (S6 e st) = proofCache st"
  by (simp add: S6_def Let_def split: option.splits prove_result.splits)

lemma S6_console:
  "console (S6 e st) =
     console st @
       (case proofCache st ''S1'' of
          Some (Ok p pub) \<Rightarrow>
            [printResult ''S6'' ''Replay / substitution -- tampered public signals'' (\<not> verify e (vKey e) (tamper pub) p) True
               (verify e (vKey e) (tamper pub) p) None]
        | _ \<Rightarrow> [PrintSkip ''S6''])"
  by (simp add: S6_def Let_def split: option.splits prove_result.splits)

lemma S7_report:
  "S7 e st = Inr st' \<Longrightarrow>
   report st' =
     report st @
       (case proofCache st ''S1'' of
          Some (Ok p pub) \<Rightarrow>
            [\<lparr>sid = ''S7'',
              name = ''Policy update -- proof verified against wrong verification key'',
              expectProof = True, expectVerify = False,
              result = (\<not> verify e (projr (corruptVkey (vKey e))) pub p)\<rparr>]
        | _ \<Rightarrow> [])"
  by (auto simp add: S7_def Let_def split: option.splits prove_result.splits sum.splits)

lemma S7_console:
  "S7 e st = Inr st' \<Longrightarrow>
   console st' =
     console st @
       (case proofCache st ''S1'' of
          Some (Ok p pub) \<Rightarrow>
            [printResult ''S7'' ''Policy update -- proof verified against wrong verification key'' (\<not> verify e (projr (corruptVkey (vKey e))) pub p) True
               (verify e (projr (corruptVkey (vKey e))) pub p) None]
        | _ \<Rightarrow> [PrintSkip ''S7''])"
  by (auto simp add: S7_def Let_def split: option.splits prove_result.splits sum.splits)

lemma ok_tryProve_throw: "fp x = Inl msg \<Longrightarrow> \<not> ok (tryProve fp x)"
  by (simp add: tryProve_def)



lemma report_main:
  assumes "prove_main e = Inr fin"
  shows "saved fin = report (S5b e (S5a e (S4 e (S3 e (S2 e (S1 e initial)))))) @
       (case proofCache (S5b e (S5a e (S4 e (S3 e (S2 e (S1 e initial)))))) ''S1'' of
          Some (Ok p pub) \<Rightarrow>
            [\<lparr>sid = ''S6'', name = ''Replay / substitution -- tampered public signals'',
              expectProof = True, expectVerify = False,
              result = (\<not> verify e (vKey e) (tamper pub) p)\<rparr>,
             \<lparr>sid = ''S7'',
              name = ''Policy update -- proof verified against wrong verification key'',
              expectProof = True, expectVerify = False,
              result = (\<not> verify e (projr (corruptVkey (vKey e))) pub p)\<rparr>]
        | _ \<Rightarrow> [])"
proof -
  let ?st5 = "S5b e (S5a e (S4 e (S3 e (S2 e (S1 e initial)))))"
  from assms obtain st where st: "S7 e (S6 e ?st5) = Inr st" and fin: "saved fin = report st"
    by (auto simp add: prove_main_def split: sum.splits)
  show ?thesis
    unfolding fin using S7_report [OF st]
    by (simp add: S6_report S6_cache split: option.splits prove_result.splits)
qed


lemma console_main:
  assumes "prove_main e = Inr fin"
  shows "printed fin = console (S5b e (S5a e (S4 e (S3 e (S2 e (S1 e initial)))))) @
       (case proofCache (S5b e (S5a e (S4 e (S3 e (S2 e (S1 e initial)))))) ''S1'' of
          Some (Ok p pub) \<Rightarrow>
            [printResult ''S6'' ''Replay / substitution -- tampered public signals'' (\<not> verify e (vKey e) (tamper pub) p) True
               (verify e (vKey e) (tamper pub) p) None,
             printResult ''S7'' ''Policy update -- proof verified against wrong verification key'' (\<not> verify e (projr (corruptVkey (vKey e))) pub p) True
               (verify e (projr (corruptVkey (vKey e))) pub p) None]
        | _ \<Rightarrow> [PrintSkip ''S6'', PrintSkip ''S7''])"
proof -
  let ?st5 = "S5b e (S5a e (S4 e (S3 e (S2 e (S1 e initial)))))"
  from assms obtain st where st: "S7 e (S6 e ?st5) = Inr st" and fin: "printed fin = console st"
    by (auto simp add: prove_main_def split: sum.splits)
  show ?thesis
    unfolding fin using S7_console [OF st]
    by (simp add: S6_console S6_cache split: option.splits prove_result.splits)
qed

lemma saved_ids:
  assumes "prove_main e = Inr fin"
  shows "map sid (saved fin) =
     [''S1'', ''S2'', ''S3'', ''S4'', ''S5a'', ''S5b''] @
     (if ok (tryProve (fullProve e) (S1_input e)) \<and> verifyOf e (tryProve (fullProve e) (S1_input e))
      then [''S6'', ''S7''] else [])"
  unfolding report_main [OF assms] report_S5b cache_S5b
  by (cases "tryProve (fullProve e) (S1_input e)") simp_all

lemma saved_results_fail:
  assumes "prove_main e = Inr fin"
  shows "map result (filter (\<lambda>x. sid x = ''S2'') (saved fin)) = [\<not> ok (tryProve (fullProve e) (S2_input e))]"
    and "map result (filter (\<lambda>x. sid x = ''S3'') (saved fin)) = [\<not> ok (tryProve (fullProve e) (S3_input e))]"
    and "map result (filter (\<lambda>x. sid x = ''S4'') (saved fin)) = [\<not> ok (tryProve (fullProve e) (S4_input e))]"
    and "map result (filter (\<lambda>x. sid x = ''S5b'') (saved fin)) = [\<not> ok (tryProve (fullProve e) (S5b_input e))]"
  unfolding report_main [OF assms] report_S5b cache_S5b
  by (cases "tryProve (fullProve e) (S1_input e)"; simp)+

lemmas harness_defs = prove_main_def S1_def S2_def S3_def S4_def S5a_def S5b_def S6_def S7_def
  initial_def tryProve_def printResult_def S1_input_def S2_input_def S3_input_def S4_input_def S5a_input_def
  S5b_input_def credHash_def srcHash_def tamper_def corruptVkey_def Let_def

lemma main_missing_wasm:
  "prove_main missing_wasm_env =
     Inr \<lparr>saved =
           [\<lparr>sid = ''S1'', name = ''Valid baseline -- accept prescription'',
             expectProof = True, expectVerify = True, result = False\<rparr>,
            \<lparr>sid = ''S2'', name = ''Invalid credential -- forged doctorSecret'',
             expectProof = False, expectVerify = False, result = True\<rparr>,
            \<lparr>sid = ''S3'', name = ''Untrusted source -- sourceId not in governance registry'',
             expectProof = False, expectVerify = False, result = True\<rparr>,
            \<lparr>sid = ''S4'', name = ''Freshness violation -- dataAge exceeds deltaMax'',
             expectProof = False, expectVerify = False, result = True\<rparr>,
            \<lparr>sid = ''S5a'', name = ''Contraindication -- reject outcome proved correctly'',
             expectProof = True, expectVerify = True, result = False\<rparr>,
            \<lparr>sid = ''S5b'',
             name = ''Outcome integrity -- approve attempt despite contraindication'',
             expectProof = False, expectVerify = False, result = True\<rparr>],
          passedCount = 4, total = 6,
          printed =
           [PrintResult ''S1'' ''Valid baseline -- accept prescription'' False False False (Some ''ENOENT: no such file or directory''),
            PrintResult ''S2'' ''Invalid credential -- forged doctorSecret'' True False False (Some ''ENOENT: no such file or directory''),
            PrintResult ''S3'' ''Untrusted source -- sourceId not in governance registry'' True False False (Some ''ENOENT: no such file or directory''),
            PrintResult ''S4'' ''Freshness violation -- dataAge exceeds deltaMax'' True False False (Some ''ENOENT: no such file or directory''),
            PrintResult ''S5a'' ''Contraindication -- reject outcome proved correctly'' False False False (Some ''ENOENT: no such file or directory''),
            PrintResult ''S5b'' ''Outcome integrity -- approve attempt despite contraindication'' True False False (Some ''ENOENT: no such file or directory''),
            PrintSkip ''S6'', PrintSkip ''S7'']\<rparr>"
  by (simp add: harness_defs missing_wasm_env_def)

lemma main_always_proving:
  "prove_main always_proving_env =
     Inr \<lparr>saved =
           [\<lparr>sid = ''S1'', name = ''Valid baseline -- accept prescription'',
             expectProof = True, expectVerify = True, result = True\<rparr>,
            \<lparr>sid = ''S2'', name = ''Invalid credential -- forged doctorSecret'',
             expectProof = False, expectVerify = False, result = False\<rparr>,
            \<lparr>sid = ''S3'', name = ''Untrusted source -- sourceId not in governance registry'',
             expectProof = False, expectVerify = False, result = False\<rparr>,
            \<lparr>sid = ''S4'', name = ''Freshness violation -- dataAge exceeds deltaMax'',
             expectProof = False, expectVerify = False, result = False\<rparr>,
            \<lparr>sid = ''S5a'', name = ''Contraindication -- reject outcome proved correctly'',
             expectProof = True, expectVerify = True, result = True\<rparr>,
            \<lparr>sid = ''S5b'',
             name = ''Outcome integrity -- approve attempt despite contraindication'',
             expectProof = False, expectVerify = False, result = False\<rparr>,
            \<lparr>sid = ''S6'', name = ''Replay / substitution -- tampered public signals'',
              expectProof = True, expectVerify = False, result = True\<rparr>,
            \<lparr>sid = ''S7'',
              name = ''Policy update -- proof verified against wrong verification key'',
              expectProof = True, expectVerify = False, result = True\<rparr>],
          passedCount = 4, total = 8,
          printed =
           [PrintResult ''S1'' ''Valid baseline -- accept prescription'' True True True None,
            PrintResult ''S2'' ''Invalid credential -- forged doctorSecret'' False True False None,
            PrintResult ''S3'' ''Untrusted source -- sourceId not in governance registry'' False True False None,
            PrintResult ''S4'' ''Freshness violation -- dataAge exceeds deltaMax'' False True False None,
            PrintResult ''S5a'' ''Contraindication -- reject outcome proved correctly'' True True True None,
            PrintResult ''S5b'' ''Outcome integrity -- approve attempt despite contraindication'' False True False None,
            PrintResult ''S6'' ''Replay / substitution -- tampered public signals'' True True False None,
            PrintResult ''S7'' ''Policy update -- proof verified against wrong verification key'' True True False None]\<rparr>"
  by (simp add: harness_defs always_proving_env_def)


text \<open>
  C9 (as amended). Every run of the scenario runner that reaches the summary saves one
  entry for each of S1, S2, S3, S4, S5a and S5b, and one for each of S6 and S7 exactly
  when the S1 proof was produced and verified; otherwise S6 and S7 print a SKIP line and
  save nothing. Every result block printed belongs to one saved entry, in order, with the
  same pass/fail, and an entry passes exactly when the printed pair (proof generated,
  verified) equals the entry's declared expectation.
\<close>

theorem report_entries:
  assumes "prove_main e = Inr fin"
  shows "map sid (saved fin) =
           [''S1'', ''S2'', ''S3'', ''S4'', ''S5a'', ''S5b''] @ (if S1_ok e then [''S6'', ''S7''] else [])
       \<and> list_all2 (\<lambda>(i, okS, proofOk, verifyOk) x. i = sid x \<and> okS = result x \<and>
             (result x \<longleftrightarrow> (proofOk, verifyOk) = (expectProof x, expectVerify x)))
           (List.map_filter shown (printed fin)) (saved fin)
       \<and> filter (\<lambda>l. shown l = None) (printed fin) =
           (if S1_ok e then [] else [PrintSkip ''S6'', PrintSkip ''S7''])"
proof -
  have ids: "map sid (saved fin) =
           [''S1'', ''S2'', ''S3'', ''S4'', ''S5a'', ''S5b''] @ (if S1_ok e then [''S6'', ''S7''] else [])"
    using saved_ids [OF assms] by (simp add: S1_ok_def)
  have cls: "list_all2 (\<lambda>(i, okS, proofOk, verifyOk) x. i = sid x \<and> okS = result x \<and>
             (result x \<longleftrightarrow> (proofOk, verifyOk) = (expectProof x, expectVerify x)))
           (List.map_filter shown (printed fin)) (saved fin)"
    unfolding report_main [OF assms] console_main [OF assms] report_S5b console_S5b cache_S5b
    by (cases "tryProve (fullProve e) (S1_input e)")
       (auto simp add: List.map_filter_simps printResult_def)
  have skips: "filter (\<lambda>l. shown l = None) (printed fin) =
           (if S1_ok e then [] else [PrintSkip ''S6'', PrintSkip ''S7''])"
    unfolding console_main [OF assms] console_S5b cache_S5b S1_ok_def
    by (cases "tryProve (fullProve e) (S1_input e)") (simp_all add: printResult_def)
  from ids cls skips show ?thesis by blast
qed


theorem report_entries_witness:
  "\<exists>fin. prove_main always_proving_env = Inr fin \<and> S1_ok always_proving_env \<and>
     map sid (saved fin) = [''S1'', ''S2'', ''S3'', ''S4'', ''S5a'', ''S5b'', ''S6'', ''S7''] \<and>
     map result (saved fin) = [True, False, False, False, True, False, True, True] \<and>
     list_all2 (\<lambda>(i, okS, proofOk, verifyOk) x. i = sid x \<and> okS = result x \<and>
         (result x \<longleftrightarrow> (proofOk, verifyOk) = (expectProof x, expectVerify x)))
       (List.map_filter shown (printed fin)) (saved fin)"
proof -
  have ok1: "S1_ok always_proving_env"
    by (simp add: S1_ok_def always_proving_env_def tryProve_def S1_input_def)
  show ?thesis
    using report_entries [OF main_always_proving] ok1
    by (simp add: main_always_proving)
qed

text \<open>
  C9 as stated fails: when no proof can be produced, S6 and S7 are skipped, the saved
  report has six entries and the summary counts four of six.
\<close>

theorem skipped_probes_leave_no_entry:
  "(case prove_main missing_wasm_env of
      Inl err \<Rightarrow> False
    | Inr fin \<Rightarrow>
        map sid (saved fin) = [''S1'', ''S2'', ''S3'', ''S4'', ''S5a'', ''S5b''] \<and>
        total fin = 6 \<and> passedCount fin = 4 \<and>
        filter (\<lambda>l. shown l = None) (printed fin) = [PrintSkip ''S6'', PrintSkip ''S7''])"
  by (simp add: main_missing_wasm)

text \<open>
  C10. An expected-failure scenario (S2, S3, S4, S5b) is reported as passed whenever
  \<open>fullProve\<close> throws on its input, whatever the exception is: only the fact that
  something was thrown is used.
\<close>

theorem any_exception_counts_as_expected_failure:
  assumes "prove_main e = Inr fin"
    and "(i, x) \<in> set [(''S2'', S2_input e), (''S3'', S3_input e), (''S4'', S4_input e), (''S5b'', S5b_input e)]"
    and "fullProve e x = Inl msg"
  shows "map result (filter (\<lambda>x. sid x = i) (saved fin)) = [True]"
proof -
  from assms(2) consider
      "i = ''S2''" "x = S2_input e" | "i = ''S3''" "x = S3_input e"
    | "i = ''S4''" "x = S4_input e" | "i = ''S5b''" "x = S5b_input e"
    by auto
  then show ?thesis
  proof cases
    case 1
    with assms(3) show ?thesis
      using saved_results_fail(1) [OF assms(1)] by (simp add: ok_tryProve_throw)
  next
    case 2
    with assms(3) show ?thesis
      using saved_results_fail(2) [OF assms(1)] by (simp add: ok_tryProve_throw)
  next
    case 3
    with assms(3) show ?thesis
      using saved_results_fail(3) [OF assms(1)] by (simp add: ok_tryProve_throw)
  next
    case 4
    with assms(3) show ?thesis
      using saved_results_fail(4) [OF assms(1)] by (simp add: ok_tryProve_throw)
  qed
qed


theorem any_exception_witness:
  "\<exists>fin. prove_main missing_wasm_env = Inr fin \<and>
     fullProve missing_wasm_env (S5b_input missing_wasm_env) = Inl ''ENOENT: no such file or directory'' \<and>
     map result (filter (\<lambda>x. sid x = ''S5b'') (saved fin)) = [True]"
proof -
  have thrown: "fullProve missing_wasm_env (S5b_input missing_wasm_env) = Inl ''ENOENT: no such file or directory''"
    by (simp add: missing_wasm_env_def)
  have "map result (filter (\<lambda>x. sid x = ''S5b'')
      (saved (projr (prove_main missing_wasm_env)))) = [True]"
    by (rule any_exception_counts_as_expected_failure
          [where x = "S5b_input missing_wasm_env" and e = missing_wasm_env, OF _ _ thrown])
       (simp_all add: main_missing_wasm)
  with thrown show ?thesis by (simp add: main_missing_wasm)
qed

section \<open>The compile step of the setup run\<close>

lemma ceremony_stale_r1cs:
  "ceremony_main stale_r1cs_env =
     \<lparr>exitStatus = None, logSaved = True,
      logged = [[], ''STDERR: error[P1001]: parse error''],
      attempted = Compile # downstream\<rparr>"
  by (simp add: ceremony_main_def downstream_def stale_r1cs_env_def)

text \<open>
  C8 (as amended). When the compiler call fails and build/prescription.r1cs does not
  exist, the run logs the error, saves the log and exits with status 1 after the compile
  step alone. When the file exists, the output of the failed call is logged and the run
  goes on to the next step.
\<close>

theorem compile_failure_abort:
  assumes "execSync e = ExecFailed out err"
  shows "(\<not> r1csExists e \<longrightarrow>
            ceremony_main e =
              \<lparr>exitStatus = Some 1, logSaved = True,
               logged = [out, ''STDERR: '' @ err, ''ERROR: Compilation failed. Aborting.''],
               attempted = [Compile]\<rparr>)
       \<and> (r1csExists e \<longrightarrow>
            logged (ceremony_main e) = [out, ''STDERR: '' @ err] \<and>
            take 2 (attempted (ceremony_main e)) = [Compile, R1csInfo])"
  using assms by (simp add: ceremony_main_def downstream_def)

theorem compile_failure_abort_witness:
  "execSync no_r1cs_env = ExecFailed [] ''error[P1001]: parse error'' \<and>
   \<not> r1csExists no_r1cs_env \<and>
   ceremony_main no_r1cs_env =
     \<lparr>exitStatus = Some 1, logSaved = True,
      logged = [[], ''STDERR: error[P1001]: parse error'', ''ERROR: Compilation failed. Aborting.''],
      attempted = [Compile]\<rparr>"
  using compile_failure_abort [of no_r1cs_env "[]" "''error[P1001]: parse error''"]
  by (simp add: no_r1cs_env_def)

text \<open>
  C8 as stated fails: with a stale build/prescription.r1cs the failed compilation is
  followed by every later step, key generation, proving and verification included, and
  the run never calls \<open>process.exit\<close>.
\<close>

theorem compile_failure_ignored_with_stale_r1cs:
  "execSync stale_r1cs_env = ExecFailed [] ''error[P1001]: parse error'' \<and>
   exitStatus (ceremony_main stale_r1cs_env) = None \<and>
   attempted (ceremony_main stale_r1cs_env) =
     [Compile, R1csInfo, PtauNew, PtauContribute1, PtauContribute2, PtauVerify,
      PtauPreparePhase2, ZkeyNew, ZkeyContribute1, ZkeyContribute2, ZkeyVerify,
      ExportVerificationKey, BuildPoseidon, FullProve, Verify, ExportSolidityVerifier]"
  by (simp add: ceremony_stale_r1cs) (simp add: stale_r1cs_env_def downstream_def)

end
